theory Spec2Isabelle
  imports Complex_Main "HOL-Library.Log_Nat"
begin

section \<open>Smart traffic system: the prediction-and-collection pipeline of app.py\<close>

text \<open>
  The development embeds \<^verbatim>\<open>src/app.py\<close>: the sensor simulator
  (\<^verbatim>\<open>IoTSimulator.generate_sensor_data\<close>), the prediction model
  (\<^verbatim>\<open>TrafficPredictor\<close>), the store (\<^verbatim>\<open>init_db\<close>,
  \<^verbatim>\<open>store_traffic_data\<close>) and the collector (\<^verbatim>\<open>data_collection_job\<close>).

  Conventions of the embedding.
  \<^item> Python \<^verbatim>\<open>int\<close> is \<open>int\<close>. A Python \<^verbatim>\<open>float\<close> is the real number that
    the IEEE binary64 value denotes; every float literal and every arithmetic operation on
    floats rounds its exact result to the nearest binary64 value (\<open>fl\<close>), ties to even.
    Overflow, infinities and NaN are not modelled: no value of the simulator comes near
    them.
  \<^item> The process-global generator of the \<^verbatim>\<open>random\<close> module is a stream of raw
    outputs with a read position; every draw consumes one element.
  \<^item> \<^verbatim>\<open>datetime.now()\<close> reads a stream of clock values, one per call.
  \<^item> Exceptions are values of type \<open>error\<close>; a function that can raise returns
    \<open>error + 'a\<close> together with the state reached when it stopped.
  \<^item> Console output (\<^verbatim>\<open>print\<close>) is not modelled.
\<close>

subsection \<open>Python primitives\<close>

type_synonym rng = "(nat \<Rightarrow> nat) \<times> nat"

text \<open>\<^verbatim>\<open>random.randint(a, b)\<close>: an integer of the closed range, here the next raw
  output reduced into the range.\<close>

definition randint :: "int \<Rightarrow> int \<Rightarrow> rng \<Rightarrow> int \<times> rng" where
  "randint a b g = (a + int (fst g (snd g) mod nat (b - a + 1)), (fst g, Suc (snd g)))"

text \<open>\<^verbatim>\<open>random.choice(seq)\<close> on a non-empty sequence.\<close>

definition choice :: "'a list \<Rightarrow> rng \<Rightarrow> 'a \<times> rng" where
  "choice xs g = (xs ! (fst g (snd g) mod length xs), (fst g, Suc (snd g)))"

text \<open>\<^verbatim>\<open>int(x)\<close> on a float truncates towards zero.\<close>

definition py_int :: "real \<Rightarrow> int" where
  "py_int x = (if 0 \<le> x then \<lfloor>x\<rfloor> else \<lceil>x\<rceil>)"

text \<open>Rounding a real number to the nearest integer, a tie going to the even
  neighbour.\<close>

definition round_half_even :: "real \<Rightarrow> int" where
  "round_half_even x =
     (let f = \<lfloor>x\<rfloor>; d = x - of_int f
      in if d < 1 / 2 then f
         else if 1 / 2 < d then f + 1
         else if even f then f else f + 1)"

text \<open>Rounding to 53 significant bits with a least spacing of \<open>2 ^ - p\<close>: the
  argument is scaled by \<open>2 ^ p\<close>, the bits beyond the 53 leading ones are rounded away,
  and the result is scaled back. Binary64 has \<open>p = 1074\<close>, the exponent of its smallest
  subnormal number.\<close>

definition round_to :: "nat \<Rightarrow> real \<Rightarrow> real" where
  "round_to p x =
     (let s = nat (bitlen \<lfloor>\<bar>x\<bar> * 2 ^ p\<rfloor> - 53)
      in of_int (round_half_even (x * 2 ^ p / 2 ^ s)) * 2 ^ s / 2 ^ p)"

definition fl :: "real \<Rightarrow> real" where
  "fl x = round_to 1074 x"

text \<open>\<^verbatim>\<open>float(n)\<close>, the conversion that an operation on an \<^verbatim>\<open>int\<close> and a
  \<^verbatim>\<open>float\<close> applies to the \<^verbatim>\<open>int\<close>.\<close>

definition to_float :: "int \<Rightarrow> real" where
  "to_float n = fl (of_int n)"

text \<open>\<^verbatim>\<open>round(x, 1)\<close> on a float: the decimal with one fractional digit nearest to
  the exact value of \<open>x\<close>, a tie going to the even digit, converted back to the nearest
  float.\<close>

definition py_round1 :: "real \<Rightarrow> real" where
  "py_round1 x = fl (of_int (round_half_even (x * 10)) / 10)"

text \<open>\<^verbatim>\<open>needle in haystack\<close> on strings.\<close>

fun str_in :: "string \<Rightarrow> string \<Rightarrow> bool" where
  "str_in needle [] = (needle = [])"
| "str_in needle (c # cs) =
     (take (length needle) (c # cs) = needle \<or> str_in needle cs)"

record datetime =
  dt_hour :: int
  dt_weekday :: int
  dt_isoformat :: string

subsection \<open>The sensor simulator\<close>

record location =
  lat :: real
  lng :: real
  name :: string
  congestion_type :: string

text \<open>\<^verbatim>\<open>IoTSimulator.sensors\<close>, in insertion order (the order \<^verbatim>\<open>items()\<close>
  iterates in). Every entry carries the key \<^verbatim>\<open>congestion_type\<close>, so the default
  of \<^verbatim>\<open>location.get("congestion_type", "medium")\<close> is never taken. The
  coordinates are float literals.\<close>

definition sensors :: "(string \<times> location) list" where
  "sensors =
     [(''delhi_cp'', \<lparr>lat = fl 28.6315, lng = fl 77.2167,
         name = ''Connaught Place, Delhi'', congestion_type = ''high''\<rparr>),
      (''delhi_iffco'', \<lparr>lat = fl 28.4595, lng = fl 77.0266,
         name = ''IFFCO Chowk, Gurgaon'', congestion_type = ''high''\<rparr>),
      (''delhi_lajpat'', \<lparr>lat = fl 28.5677, lng = fl 77.2334,
         name = ''Lajpat Nagar, Delhi'', congestion_type = ''medium''\<rparr>),
      (''delhi_dwarka'', \<lparr>lat = fl 28.5921, lng = fl 77.0460,
         name = ''Dwarka Sector 21, Delhi'', congestion_type = ''low''\<rparr>),
      (''blr_silk'', \<lparr>lat = fl 12.9279, lng = fl 77.6271,
         name = ''Silk Board Junction, Bengaluru'', congestion_type = ''high''\<rparr>),
      (''blr_electronic'', \<lparr>lat = fl 12.8456, lng = fl 77.6632,
         name = ''Electronic City, Bengaluru'', congestion_type = ''high''\<rparr>),
      (''blr_jayanagar'', \<lparr>lat = fl 12.9250, lng = fl 77.5946,
         name = ''Jayanagar 4th Block, Bengaluru'', congestion_type = ''medium''\<rparr>),
      (''blr_hebbal'', \<lparr>lat = fl 13.0358, lng = fl 77.5970,
         name = ''Hebbal Flyover, Bengaluru'', congestion_type = ''low''\<rparr>),
      (''mumbai_bandra'', \<lparr>lat = fl 19.0596, lng = fl 72.8295,
         name = ''Bandra Kurla Complex, Mumbai'', congestion_type = ''high''\<rparr>),
      (''mumbai_andheri'', \<lparr>lat = fl 19.1136, lng = fl 72.8697,
         name = ''Andheri East, Mumbai'', congestion_type = ''medium''\<rparr>),
      (''chennai_adyar'', \<lparr>lat = fl 13.0067, lng = fl 80.2206,
         name = ''Adyar Signal, Chennai'', congestion_type = ''medium''\<rparr>),
      (''chennai_omr'', \<lparr>lat = fl 12.8406, lng = fl 80.1534,
         name = ''OMR IT Corridor, Chennai'', congestion_type = ''low''\<rparr>)]"

record reading =
  sensor_id :: string
  timestamp :: string
  vehicle_count :: int
  avg_speed :: real
  location :: location
  congestion_level :: string

text \<open>Lines 271-277: the base count of the congestion class.\<close>

definition base_vehicles_init :: "string \<Rightarrow> int" where
  "base_vehicles_init ct =
     (if ct = ''high'' then 60 else if ct = ''medium'' then 35 else 20)"

text \<open>Lines 279-300: the time-of-day adjustment of \<^verbatim>\<open>base_vehicles\<close>. The first
  two bands execute \<^verbatim>\<open>+=\<close>, the night band executes \<^verbatim>\<open>=\<close>; an hour in none of
  the bands (hour 6) leaves the count as it is and draws nothing.\<close>

definition time_adjust :: "int \<Rightarrow> string \<Rightarrow> int \<Rightarrow> rng \<Rightarrow> int \<times> rng" where
  "time_adjust h ct base_vehicles g =
     (if (7 \<le> h \<and> h \<le> 11) \<or> (16 \<le> h \<and> h \<le> 21) then
        (if ct = ''high'' then
           (let (r, g') = randint 100 180 g in (base_vehicles + r, g'))
         else if ct = ''medium'' then
           (let (r, g') = randint 60 120 g in (base_vehicles + r, g'))
         else
           (let (r, g') = randint 30 80 g in (base_vehicles + r, g')))
      else if 12 \<le> h \<and> h \<le> 15 then
        (if ct = ''high'' then
           (let (r, g') = randint 40 80 g in (base_vehicles + r, g'))
         else if ct = ''medium'' then
           (let (r, g') = randint 20 50 g in (base_vehicles + r, g'))
         else
           (let (r, g') = randint 10 30 g in (base_vehicles + r, g')))
      else if 22 \<le> h \<or> h \<le> 5 then
        (if ct = ''high'' then randint 15 35 g
         else if ct = ''medium'' then randint 8 20 g
         else randint 3 12 g)
      else (base_vehicles, g))"

text \<open>Lines 302-308: the city multiplier, \<^verbatim>\<open>int(base_vehicles * 1.4)\<close> and so on:
  a float product, truncated.\<close>

definition city_multiplier :: "string \<Rightarrow> int \<Rightarrow> int" where
  "city_multiplier sid base_vehicles =
     (if str_in ''mumbai'' sid then py_int (fl (to_float base_vehicles * fl 1.4))
      else if str_in ''delhi'' sid \<or> str_in ''blr'' sid then
        py_int (fl (to_float base_vehicles * fl 1.2))
      else if str_in ''chennai'' sid then py_int (fl (to_float base_vehicles * fl 1.1))
      else base_vehicles)"

text \<open>Lines 271-310: the local variable \<^verbatim>\<open>vehicle_count\<close>, which is not yet
  clamped.\<close>

definition raw_vehicle_count :: "int \<Rightarrow> string \<Rightarrow> string \<Rightarrow> rng \<Rightarrow> int \<times> rng" where
  "raw_vehicle_count h sid ct g =
     (let (b, g1) = time_adjust h ct (base_vehicles_init ct) g;
          b' = city_multiplier sid b;
          (j, g2) = randint (- 15) 15 g1
      in (b' + j, g2))"

text \<open>Lines 312-318: the speed, from the local \<^verbatim>\<open>vehicle_count\<close>. The expression
  \<^verbatim>\<open>18 - (vehicle_count * 0.15) + random.randint(-10, 5)\<close> is three float operations:
  the product, the difference, the sum.\<close>

definition speed_calc :: "string \<Rightarrow> int \<Rightarrow> rng \<Rightarrow> real \<times> rng" where
  "speed_calc ct vc g =
     (if ct = ''high'' then
        (let (j, g') = randint (- 10) 5 g
         in (max 2 (fl (fl (18 - fl (to_float vc * fl 0.15)) + to_float j)), g'))
      else if ct = ''medium'' then
        (let (j, g') = randint (- 8) 8 g
         in (max 5 (fl (fl (28 - fl (to_float vc * fl 0.18)) + to_float j)), g'))
      else
        (let (j, g') = randint (- 5) 10 g
         in (max 8 (fl (fl (40 - fl (to_float vc * fl 0.22)) + to_float j)), g')))"

text \<open>Lines 327-331: the label, from the local \<^verbatim>\<open>vehicle_count\<close>.\<close>

definition level_of :: "int \<Rightarrow> string" where
  "level_of vc = (if 80 < vc then ''High'' else if 40 < vc then ''Medium'' else ''Low'')"

text \<open>One iteration of the loop over \<^verbatim>\<open>self.sensors.items()\<close>.\<close>

definition sensor_reading :: "datetime \<Rightarrow> string \<Rightarrow> location \<Rightarrow> rng \<Rightarrow> reading \<times> rng" where
  "sensor_reading current_time sid loc g =
     (let h = dt_hour current_time;
          ct = congestion_type loc;
          (vc, g1) = raw_vehicle_count h sid ct g;
          (sp, g2) = speed_calc ct vc g1
      in (\<lparr>sensor_id = sid,
           timestamp = dt_isoformat current_time,
           vehicle_count = max 0 vc,
           avg_speed = py_round1 sp,
           location = loc,
           congestion_level = level_of vc\<rparr>, g2))"

fun sensor_loop :: "datetime \<Rightarrow> (string \<times> location) list \<Rightarrow> rng \<Rightarrow> reading list \<times> rng" where
  "sensor_loop current_time [] g = ([], g)"
| "sensor_loop current_time ((sid, loc) # rest) g =
     (let (r, g1) = sensor_reading current_time sid loc g;
          (rs, g2) = sensor_loop current_time rest g1
      in (r # rs, g2))"

subsection \<open>The prediction model\<close>

datatype error = NotFittedError | OperationalError | OSError | UnpicklingError | JSONDecodeError

type_synonym features = "int \<times> int \<times> int"
type_synonym scaled = "real \<times> real \<times> real"

text \<open>The two scikit-learn objects. An estimator or scaler that was never fitted has
  no function yet, and using it raises \<^verbatim>\<open>NotFittedError\<close>.\<close>

record estimator =
  n_estimators :: nat
  fitted_forest :: "(scaled \<Rightarrow> real) option"

record standard_scaler =
  fitted_transform :: "(features \<Rightarrow> scaled) option"

record sample =
  hour :: int
  day_of_week :: int
  weather :: int
  traffic_flow :: int

text \<open>The operations of scikit-learn that \<^verbatim>\<open>train_model\<close> calls are parameters of
  the embedding: the split of the data frame, the fit of the scaler, the fit of the forest
  (from its number of estimators and the scaled training set) and its score.\<close>

record sklearn =
  train_test_split :: "sample list \<Rightarrow> sample list \<times> sample list"
  scaler_fit :: "features list \<Rightarrow> features \<Rightarrow> scaled"
  forest_fit :: "nat \<Rightarrow> (scaled \<times> int) list \<Rightarrow> scaled \<Rightarrow> real"
  forest_score :: "(scaled \<Rightarrow> real) \<Rightarrow> (scaled \<times> int) list \<Rightarrow> real"

record model_info =
  trained_at :: string
  model_type :: string
  info_n_estimators :: nat
  info_features :: "string list"
  info_is_trained :: bool

text \<open>A path of the model directory holds nothing, bytes that do not load, or a stored
  object. \<open>write_denied\<close> tells for which paths \<^verbatim>\<open>open(path, "w")\<close> raises.\<close>

datatype 'a disk_file = Absent | Unreadable | Stored 'a

record filesystem =
  model_file :: "estimator disk_file"
  scaler_file :: "standard_scaler disk_file"
  model_info_file :: "model_info disk_file"
  write_denied :: "string \<Rightarrow> bool"

definition model_path :: string where
  "model_path = ''models/traffic_model.pkl''"

definition scaler_path :: string where
  "scaler_path = ''models/scaler.pkl''"

definition model_info_path :: string where
  "model_info_path = ''models/model_info.json''"

record predictor =
  model :: estimator
  scaler :: standard_scaler
  is_trained :: bool

subsection \<open>The store and the process state\<close>

text \<open>A row of table \<^verbatim>\<open>traffic_data\<close> (lines 348-358). No column but the key is
  declared \<^verbatim>\<open>NOT NULL\<close>, so every column may hold \<^verbatim>\<open>NULL\<close>, which is \<open>None\<close>.\<close>

record row =
  col_id :: nat
  col_sensor_id :: "string option"
  col_timestamp :: "string option"
  col_vehicle_count :: "int option"
  col_avg_speed :: "real option"
  col_congestion_level :: "string option"
  col_predicted_flow :: "int option"

text \<open>Everything the functions of app.py read and change: the generator of module
  \<^verbatim>\<open>random\<close>, the clock, the model directory, the global \<^verbatim>\<open>predictor\<close>, the
  committed content of the table (\<open>None\<close> before the table is created), the faults of
  the database (the k-th \<^verbatim>\<open>INSERT\<close> of the process raises when \<open>insert_faults k\<close>),
  and the seconds spent in \<^verbatim>\<open>time.sleep\<close>.\<close>

record world =
  random_state :: rng
  clock :: "(nat \<Rightarrow> datetime) \<times> nat"
  files :: filesystem
  the_predictor :: predictor
  traffic_data :: "row list option"
  insert_faults :: "nat \<Rightarrow> bool"
  insert_calls :: nat
  slept :: nat

definition now :: "world \<Rightarrow> datetime \<times> world" where
  "now w = (fst (clock w) (snd (clock w)), w\<lparr>clock := (fst (clock w), Suc (snd (clock w)))\<rparr>)"

definition random_randint :: "int \<Rightarrow> int \<Rightarrow> world \<Rightarrow> int \<times> world" where
  "random_randint a b w =
     (let (r, g) = randint a b (random_state w) in (r, w\<lparr>random_state := g\<rparr>))"

text \<open>Lines 261-335.\<close>

definition generate_sensor_data :: "world \<Rightarrow> reading list \<times> world" where
  "generate_sensor_data w =
     (let (current_time, w1) = now w;
          (data, g) = sensor_loop current_time sensors (random_state w1)
      in (data, w1\<lparr>random_state := g\<rparr>))"

text \<open>Lines 39-72: one synthetic training sample.\<close>

definition training_sample :: "rng \<Rightarrow> sample \<times> rng" where
  "training_sample g =
     (let (h, g1) = randint 0 23 g;
          (d, g2) = randint 0 6 g1;
          (wt, g3) = choice [0, 1, 2] g2;
          base_flow = 80;
          (base_flow, g4) =
            (if (7 \<le> h \<and> h \<le> 11) \<or> (16 \<le> h \<and> h \<le> 21) then
               (let (r, g') = randint 150 300 g3 in (base_flow + r, g'))
             else if 12 \<le> h \<and> h \<le> 15 then
               (let (r, g') = randint 50 100 g3 in (base_flow + r, g'))
             else if 22 \<le> h \<or> h \<le> 5 then
               (let (r, g') = randint 30 50 g3 in (base_flow - r, g'))
             else (base_flow, g3));
          (base_flow, g5) =
            (if 5 \<le> d then (let (r, g') = randint 20 40 g4 in (base_flow - r, g'))
             else (base_flow, g4));
          (base_flow, g6) =
            (if wt = 1 then (let (r, g') = randint 40 80 g5 in (base_flow + r, g'))
             else (base_flow, g5));
          (j, g7) = randint (- 30) 30 g6
      in (\<lparr>hour = h, day_of_week = d, weather = wt,
           traffic_flow = max 0 (base_flow + j)\<rparr>, g7))"

fun training_loop :: "nat \<Rightarrow> rng \<Rightarrow> sample list \<times> rng" where
  "training_loop 0 g = ([], g)"
| "training_loop (Suc n) g =
     (let (s, g1) = training_sample g;
          (ss, g2) = training_loop n g1
      in (s # ss, g2))"

definition generate_training_data :: "nat \<Rightarrow> world \<Rightarrow> sample list \<times> world" where
  "generate_training_data n_samples w =
     (let (df, g) = training_loop n_samples (random_state w)
      in (df, w\<lparr>random_state := g\<rparr>))"

text \<open>Lines 76-104. The three files are written in turn; the first
  \<^verbatim>\<open>open\<close> that raises ends the \<^verbatim>\<open>try\<close> block and the handler returns
  \<^verbatim>\<open>False\<close>, with the files written so far left in place.\<close>

definition save_model :: "world \<Rightarrow> bool \<times> world" where
  "save_model w =
     (let p = the_predictor w; f = files w
      in if write_denied f model_path then (False, w)
         else
           (let f1 = f\<lparr>model_file := Stored (model p)\<rparr>
            in if write_denied f scaler_path then (False, w\<lparr>files := f1\<rparr>)
               else
                 (let f2 = f1\<lparr>scaler_file := Stored (scaler p)\<rparr>;
                      (t, w1) = now (w\<lparr>files := f2\<rparr>);
                      info = \<lparr>trained_at = dt_isoformat t,
                              model_type = ''RandomForestRegressor'',
                              info_n_estimators = n_estimators (model p),
                              info_features = [''hour'', ''day_of_week'', ''weather''],
                              info_is_trained = is_trained p\<rparr>
                  in if write_denied f model_info_path then (False, w1)
                     else (True, w1\<lparr>files := f2\<lparr>model_info_file := Stored info\<rparr>\<rparr>))))"

text \<open>\<^verbatim>\<open>os.path.exists\<close>, \<^verbatim>\<open>pickle.load\<close> and \<^verbatim>\<open>json.load\<close> on a path.\<close>

definition path_exists :: "'a disk_file \<Rightarrow> bool" where
  "path_exists f = (f \<noteq> Absent)"

definition pickle_load :: "'a disk_file \<Rightarrow> error + 'a" where
  "pickle_load f =
     (case f of Absent \<Rightarrow> Inl OSError | Unreadable \<Rightarrow> Inl UnpicklingError | Stored x \<Rightarrow> Inr x)"

definition json_load :: "'a disk_file \<Rightarrow> error + 'a" where
  "json_load f =
     (case f of Absent \<Rightarrow> Inl OSError | Unreadable \<Rightarrow> Inl JSONDecodeError | Stored x \<Rightarrow> Inr x)"

text \<open>Lines 108-133: the body of the \<^verbatim>\<open>try\<close> block of \<^verbatim>\<open>load_model\<close>. Each
  assignment to \<^verbatim>\<open>self\<close> made before an exception stays.\<close>

definition load_model_try :: "world \<Rightarrow> (error + bool) \<times> world" where
  "load_model_try w =
     (let f = files w
      in if path_exists (model_file f) \<and> path_exists (scaler_file f) then
           (case pickle_load (model_file f) of
              Inl e \<Rightarrow> (Inl e, w)
            | Inr m \<Rightarrow>
                (let w1 = w\<lparr>the_predictor := (the_predictor w)\<lparr>model := m\<rparr>\<rparr>
                 in case pickle_load (scaler_file f) of
                      Inl e \<Rightarrow> (Inl e, w1)
                    | Inr sc \<Rightarrow>
                        (let w2 = w1\<lparr>the_predictor := (the_predictor w1)\<lparr>scaler := sc\<rparr>\<rparr>;
                             w3 = w2\<lparr>the_predictor := (the_predictor w2)\<lparr>is_trained := True\<rparr>\<rparr>
                         in if path_exists (model_info_file f) then
                              (case json_load (model_info_file f) of
                                 Inl e \<Rightarrow> (Inl e, w3)
                               | Inr info \<Rightarrow> (Inr True, w3))
                            else (Inr True, w3))))
         else (Inr False, w))"

text \<open>Lines 106-138: \<^verbatim>\<open>load_model\<close>, with the handler of lines 135-138.\<close>

definition load_model :: "world \<Rightarrow> bool \<times> world" where
  "load_model w =
     (case load_model_try w of
        (Inl e, w') \<Rightarrow> (False, w')
      | (Inr b, w') \<Rightarrow> (b, w'))"

text \<open>Lines 22-34: the constructor (the directory \<^verbatim>\<open>models\<close> is taken to exist).\<close>

definition TrafficPredictor :: "world \<Rightarrow> world" where
  "TrafficPredictor w =
     snd (load_model
       (w\<lparr>the_predictor :=
            \<lparr>model = \<lparr>n_estimators = 100, fitted_forest = None\<rparr>,
             scaler = \<lparr>fitted_transform = None\<rparr>,
             is_trained = False\<rparr>\<rparr>))"

definition features_of :: "sample \<Rightarrow> features" where
  "features_of s = (hour s, day_of_week s, weather s)"

text \<open>Lines 140-165.\<close>

definition train_model :: "sklearn \<Rightarrow> world \<Rightarrow> real \<times> world" where
  "train_model sk w =
     (let (df, w1) = generate_training_data 1000 w;
          (train, test) = train_test_split sk df;
          X_train = map features_of train;
          y_train = map traffic_flow train;
          X_test = map features_of test;
          y_test = map traffic_flow test;
          tr = scaler_fit sk X_train;
          X_train_scaled = map tr X_train;
          X_test_scaled = map tr X_test;
          p = the_predictor w1;
          fo = forest_fit sk (n_estimators (model p)) (zip X_train_scaled y_train);
          w2 = w1\<lparr>the_predictor :=
                   \<lparr>model = (model p)\<lparr>fitted_forest := Some fo\<rparr>,
                    scaler = (scaler p)\<lparr>fitted_transform := Some tr\<rparr>,
                    is_trained = True\<rparr>\<rparr>;
          score = forest_score sk fo (zip X_test_scaled y_test);
          (saved, w3) = save_model w2
      in (score, w3))"

text \<open>Lines 167-175.\<close>

definition predict :: "sklearn \<Rightarrow> int \<Rightarrow> int \<Rightarrow> int \<Rightarrow> world \<Rightarrow> (error + int) \<times> world" where
  "predict sk h d wt w =
     (let w1 = (if \<not> is_trained (the_predictor w) then snd (train_model sk w) else w);
          p = the_predictor w1
      in case fitted_transform (scaler p) of
           None \<Rightarrow> (Inl NotFittedError, w1)
         | Some tr \<Rightarrow>
             (case fitted_forest (model p) of
                None \<Rightarrow> (Inl NotFittedError, w1)
              | Some fo \<Rightarrow> (Inr (max 0 (py_int (fo (tr (h, d, wt))))), w1)))"

text \<open>benchmark_model.py, lines 96-100: the loop of \<^verbatim>\<open>test_consistency\<close>, which
  calls \<^verbatim>\<open>predict\<close> on the same arguments \<open>n\<close> times (there 10 times) and
  collects the results.\<close>

fun predict_repeat :: "sklearn \<Rightarrow> nat \<Rightarrow> int \<Rightarrow> int \<Rightarrow> int \<Rightarrow> world \<Rightarrow> (error + int list) \<times> world" where
  "predict_repeat sk 0 h d wt w = (Inr [], w)"
| "predict_repeat sk (Suc n) h d wt w =
     (case predict sk h d wt w of
        (Inl e, w1) \<Rightarrow> (Inl e, w1)
      | (Inr pred, w1) \<Rightarrow>
          (case predict_repeat sk n h d wt w1 of
             (Inl e, w2) \<Rightarrow> (Inl e, w2)
           | (Inr predictions, w2) \<Rightarrow> (Inr (pred # predictions), w2)))"

text \<open>Lines 344-361: \<^verbatim>\<open>CREATE TABLE IF NOT EXISTS\<close>.\<close>

definition init_db :: "world \<Rightarrow> world" where
  "init_db w =
     w\<lparr>traffic_data := Some (case traffic_data w of None \<Rightarrow> [] | Some rows \<Rightarrow> rows)\<rparr>"

text \<open>The key that \<^verbatim>\<open>AUTOINCREMENT\<close> gives the next row.\<close>

definition next_id :: "row list \<Rightarrow> nat" where
  "next_id rows = Suc (fold max (map col_id rows) 0)"

text \<open>Lines 378-392: one \<^verbatim>\<open>cursor.execute\<close> of the \<^verbatim>\<open>INSERT\<close>. The connection
  is in a transaction that line 394 commits: the statement adds the row to the rows
  pending in the transaction, or raises.\<close>

definition execute_insert :: "reading \<Rightarrow> int \<Rightarrow> row list \<Rightarrow> world \<Rightarrow> (error + row list) \<times> world" where
  "execute_insert rec predicted_flow pending w =
     (let k = insert_calls w; w1 = w\<lparr>insert_calls := Suc k\<rparr>
      in if insert_faults w k then (Inl OperationalError, w1)
         else
           (case traffic_data w of
              None \<Rightarrow> (Inl OperationalError, w1)
            | Some rows \<Rightarrow>
                (Inr (pending @
                   [\<lparr>col_id = next_id (rows @ pending),
                     col_sensor_id = Some (sensor_id rec),
                     col_timestamp = Some (timestamp rec),
                     col_vehicle_count = Some (vehicle_count rec),
                     col_avg_speed = Some (avg_speed rec),
                     col_congestion_level = Some (congestion_level rec),
                     col_predicted_flow = Some predicted_flow\<rparr>]), w1)))"

text \<open>Lines 369-392: the loop of \<^verbatim>\<open>store_traffic_data\<close>. An exception leaves the
  loop and the function at once.\<close>

fun store_loop :: "sklearn \<Rightarrow> reading list \<Rightarrow> row list \<Rightarrow> world \<Rightarrow> (error + row list) \<times> world" where
  "store_loop sk [] pending w = (Inr pending, w)"
| "store_loop sk (rec # rest) pending w =
     (let (current_time, w1) = now w;
          (wt, w2) = random_randint 0 2 w1;
          (res, w3) = predict sk (dt_hour current_time) (dt_weekday current_time) wt w2
      in case res of
           Inl e \<Rightarrow> (Inl e, w3)
         | Inr predicted_flow \<Rightarrow>
             (case execute_insert rec predicted_flow pending w3 of
                (Inl e, w4) \<Rightarrow> (Inl e, w4)
              | (Inr pending', w4) \<Rightarrow> store_loop sk rest pending' w4))"

text \<open>Line 394: \<^verbatim>\<open>conn.commit()\<close> makes the pending rows part of the table.\<close>

definition commit :: "row list \<Rightarrow> world \<Rightarrow> world" where
  "commit pending w =
     w\<lparr>traffic_data := map_option (\<lambda>rows. rows @ pending) (traffic_data w)\<rparr>"

text \<open>Lines 364-395. When the loop raises, the function is left before line 394: the
  transaction is never committed, and the connection is discarded with its pending rows.\<close>

definition store_traffic_data :: "sklearn \<Rightarrow> reading list \<Rightarrow> world \<Rightarrow> (error + unit) \<times> world" where
  "store_traffic_data sk data w =
     (case store_loop sk data [] w of
        (Inl e, w') \<Rightarrow> (Inl e, w')
      | (Inr pending, w') \<Rightarrow> (Inr (), commit pending w'))"

subsection \<open>The collector\<close>

definition sleep :: "nat \<Rightarrow> world \<Rightarrow> world" where
  "sleep secs w = w\<lparr>slept := slept w + secs\<rparr>"

text \<open>Lines 401-408: one iteration of the loop of \<^verbatim>\<open>data_collection_job\<close>: the
  \<^verbatim>\<open>try\<close> block, and the handler that sleeps as well.\<close>

definition data_collection_tick :: "sklearn \<Rightarrow> world \<Rightarrow> world" where
  "data_collection_tick sk w =
     (let (sensor_data, w1) = generate_sensor_data w;
          (res, w2) = store_traffic_data sk sensor_data w1
      in case res of
           Inr u \<Rightarrow> sleep 30 w2
         | Inl e \<Rightarrow> sleep 30 w2)"

text \<open>Lines 398-408: \<^verbatim>\<open>while True\<close> never returns; \<open>data_collection_job sk n\<close> is
  the state after its first \<open>n\<close> iterations.\<close>

fun data_collection_job :: "sklearn \<Rightarrow> nat \<Rightarrow> world \<Rightarrow> world" where
  "data_collection_job sk 0 w = w"
| "data_collection_job sk (Suc n) w = data_collection_job sk n (data_collection_tick sk w)"

subsection \<open>The specification's tables, for comparison with the code\<close>

text \<open>The three bands of the time-of-day adjustment and the ranges the specification
  gives for them, by congestion class (any class that is neither \<^verbatim>\<open>high\<close> nor
  \<^verbatim>\<open>medium\<close> is treated as \<^verbatim>\<open>low\<close>).\<close>

definition rush_band :: "int \<Rightarrow> bool" where
  "rush_band h = ((7 \<le> h \<and> h \<le> 11) \<or> (16 \<le> h \<and> h \<le> 21))"

definition midday_band :: "int \<Rightarrow> bool" where
  "midday_band h = (12 \<le> h \<and> h \<le> 15)"

definition night_band :: "int \<Rightarrow> bool" where
  "night_band h = (22 \<le> h \<or> h \<le> 5)"

definition rush_range :: "string \<Rightarrow> int \<times> int" where
  "rush_range ct =
     (if ct = ''high'' then (100, 180) else if ct = ''medium'' then (60, 120) else (30, 80))"

definition midday_range :: "string \<Rightarrow> int \<times> int" where
  "midday_range ct =
     (if ct = ''high'' then (40, 80) else if ct = ''medium'' then (20, 50) else (10, 30))"

definition night_range :: "string \<Rightarrow> int \<times> int" where
  "night_range ct =
     (if ct = ''high'' then (15, 35) else if ct = ''medium'' then (8, 20) else (3, 12))"

text \<open>The specification's speed formula for a class, a vehicle count and a jitter,
  \<open>max(floor, intercept - slope * count + jitter)\<close>, evaluated in float arithmetic from
  left to right and rounded to one decimal place; the table of intercept, slope and floor
  of each class; the jitter range of each class; and the list of all speeds the formula
  allows for a count.\<close>

definition spec_intercept :: "string \<Rightarrow> real" where
  "spec_intercept ct = (if ct = ''high'' then 18 else if ct = ''medium'' then 28 else 40)"

definition spec_slope :: "string \<Rightarrow> real" where
  "spec_slope ct =
     (if ct = ''high'' then fl 0.15 else if ct = ''medium'' then fl 0.18 else fl 0.22)"

definition spec_floor :: "string \<Rightarrow> real" where
  "spec_floor ct = (if ct = ''high'' then 2 else if ct = ''medium'' then 5 else 8)"

definition spec_speed :: "string \<Rightarrow> int \<Rightarrow> int \<Rightarrow> real" where
  "spec_speed ct c j =
     py_round1
       (max (spec_floor ct)
          (fl (fl (spec_intercept ct - fl (spec_slope ct * to_float c)) + to_float j)))"

definition spec_jitter :: "string \<Rightarrow> int \<times> int" where
  "spec_jitter ct =
     (if ct = ''high'' then (- 10, 5) else if ct = ''medium'' then (- 8, 8) else (- 5, 10))"

definition spec_speeds :: "string \<Rightarrow> int \<Rightarrow> real list" where
  "spec_speeds ct c = map (spec_speed ct c) [fst (spec_jitter ct)..snd (spec_jitter ct)]"

text \<open>The sensor identifiers of the committed rows, and the invariant of the table: no
  committed row has \<^verbatim>\<open>NULL\<close> in column \<^verbatim>\<open>predicted_flow\<close>.\<close>

definition persisted_ids :: "world \<Rightarrow> string option list" where
  "persisted_ids w = (case traffic_data w of None \<Rightarrow> [] | Some rows \<Rightarrow> map col_sensor_id rows)"

definition all_predicted :: "world \<Rightarrow> bool" where
  "all_predicted w =
     (case traffic_data w of
        None \<Rightarrow> True
      | Some rows \<Rightarrow> list_all (\<lambda>r. col_predicted_flow r \<noteq> None) rows)"

text \<open>A state is ready when its predictor is trained and fitted and the table exists.\<close>

definition ready :: "world \<Rightarrow> bool" where
  "ready w =
     (is_trained (the_predictor w)
      \<and> fitted_transform (scaler (the_predictor w)) \<noteq> None
      \<and> fitted_forest (model (the_predictor w)) \<noteq> None
      \<and> traffic_data w \<noteq> None)"

subsection \<open>Concrete inputs\<close>

definition connaught :: location where
  "connaught = \<lparr>lat = fl 28.6315, lng = fl 77.2167,
     name = ''Connaught Place, Delhi'', congestion_type = ''high''\<rparr>"

definition dwarka :: location where
  "dwarka = \<lparr>lat = fl 28.5921, lng = fl 77.0460,
     name = ''Dwarka Sector 21, Delhi'', congestion_type = ''low''\<rparr>"

definition lajpat :: location where
  "lajpat = \<lparr>lat = fl 28.5677, lng = fl 77.2334,
     name = ''Lajpat Nagar, Delhi'', congestion_type = ''medium''\<rparr>"

definition at_hour :: "int \<Rightarrow> datetime" where
  "at_hour h = \<lparr>dt_hour = h, dt_weekday = 1, dt_isoformat = ''2024-01-02T00:00:00''\<rparr>"

text \<open>A stand-in for scikit-learn: the split keeps the first 800 samples for training, the
  scaler is the identity, and every fit returns the same linear function.\<close>

definition example_forest :: "scaled \<Rightarrow> real" where
  "example_forest = (\<lambda>(h, d, wt). 25 * h - 60.5 + 3 * wt)"

definition example_transform :: "features \<Rightarrow> scaled" where
  "example_transform = (\<lambda>(h, d, wt). (of_int h, of_int d, of_int wt))"

definition example_sklearn :: sklearn where
  "example_sklearn =
     \<lparr>train_test_split = (\<lambda>df. (take 800 df, drop 800 df)),
      scaler_fit = (\<lambda>X. example_transform),
      forest_fit = (\<lambda>n data. example_forest),
      forest_score = (\<lambda>fo data. 1)\<rparr>"

definition fresh_predictor :: predictor where
  "fresh_predictor =
     \<lparr>model = \<lparr>n_estimators = 100, fitted_forest = None\<rparr>,
      scaler = \<lparr>fitted_transform = None\<rparr>,
      is_trained = False\<rparr>"

definition trained_predictor :: predictor where
  "trained_predictor =
     \<lparr>model = \<lparr>n_estimators = 100, fitted_forest = Some example_forest\<rparr>,
      scaler = \<lparr>fitted_transform = Some example_transform\<rparr>,
      is_trained = True\<rparr>"

text \<open>A process at two o'clock at night with a trained predictor, an empty table, no model
  files on disk, and a database whose second \<^verbatim>\<open>INSERT\<close> raises.\<close>

definition example_world :: world where
  "example_world =
     \<lparr>random_state = (\<lambda>i. 0, 0),
      clock = (\<lambda>i. at_hour 2, 0),
      files = \<lparr>model_file = Absent, scaler_file = Absent, model_info_file = Absent,
               write_denied = (\<lambda>p. False)\<rparr>,
      the_predictor = trained_predictor,
      traffic_data = Some [],
      insert_faults = (\<lambda>k. k = 1),
      insert_calls = 0,
      slept = 0\<rparr>"

text \<open>A process about to construct its predictor, with a model file and a scaler file
  that load and a metadata file that does not parse.\<close>

definition stale_metadata_world :: world where
  "stale_metadata_world =
     example_world
       \<lparr>the_predictor := fresh_predictor,
        files := \<lparr>model_file = Stored (model trained_predictor),
                  scaler_file = Stored (scaler trained_predictor),
                  model_info_file = Unreadable,
                  write_denied = (\<lambda>p. False)\<rparr>\<rparr>"

text \<open>Two readings, of a low-class and of a medium-class location.\<close>

definition example_readings :: "reading list" where
  "example_readings =
     [\<lparr>sensor_id = ''delhi_dwarka'', timestamp = ''2024-01-02T00:00:00'', vehicle_count = 0,
       avg_speed = 37.5, location = dwarka, congestion_level = ''Low''\<rparr>,
      \<lparr>sensor_id = ''delhi_lajpat'', timestamp = ''2024-01-02T00:00:00'', vehicle_count = 50,
       avg_speed = 11, location = lajpat, congestion_level = ''Medium''\<rparr>]"

section \<open>Float arithmetic: properties\<close>

lemma round_half_even_of_int: "round_half_even (of_int k) = k"
  by (simp add: round_half_even_def)

lemma round_half_even_ge: "of_int n \<le> x \<Longrightarrow> n \<le> round_half_even x"
proof -
  assume "of_int n \<le> x"
  then have "n \<le> \<lfloor>x\<rfloor>" by (simp add: le_floor_iff)
  then show ?thesis by (simp add: round_half_even_def Let_def)
qed

lemma round_half_even_minus: "round_half_even (- x) = - round_half_even x"
proof (cases "x = of_int \<lfloor>x\<rfloor>")
  case True
  have "- x = of_int (- \<lfloor>x\<rfloor>)" using True by simp
  then have "round_half_even (- x) = - \<lfloor>x\<rfloor>" by (simp only: round_half_even_of_int)
  moreover have "round_half_even x = \<lfloor>x\<rfloor>"
    using True round_half_even_of_int [of "\<lfloor>x\<rfloor>"] by simp
  ultimately show ?thesis by simp
next
  case False
  have fl: "of_int \<lfloor>x\<rfloor> < x"
    by (metis False of_int_floor_le order_le_imp_less_or_eq)
  have up: "x < of_int \<lfloor>x\<rfloor> + 1" by linarith
  have "\<lfloor>- x\<rfloor> = - \<lfloor>x\<rfloor> - 1"
  proof (rule floor_unique)
    show "of_int (- \<lfloor>x\<rfloor> - 1) \<le> - x" using up by (simp only: of_int_diff of_int_minus of_int_1)
    show "- x < of_int (- \<lfloor>x\<rfloor> - 1) + 1" using fl by simp
  qed
  then show ?thesis
    using fl up by (auto simp add: round_half_even_def Let_def)
qed

lemma round_to_minus: "round_to p (- x) = - round_to p x"
  by (simp add: round_to_def Let_def round_half_even_minus)

lemma round_to_zero: "round_to p 0 = 0"
  by (simp add: round_to_def round_half_even_def)

lemma round_to_eq:
  assumes "2 ^ (52 + s) \<le> \<bar>x\<bar> * 2 ^ p" "\<bar>x\<bar> * 2 ^ p < 2 ^ (53 + s)"
  shows "round_to p x = of_int (round_half_even (x * 2 ^ p / 2 ^ s)) * 2 ^ s / 2 ^ p"
proof -
  let ?N = "\<lfloor>\<bar>x\<bar> * 2 ^ p\<rfloor>"
  have lo: "2 ^ (52 + s) \<le> ?N"
  proof -
    have "(of_int (2 ^ (52 + s)) :: real) \<le> \<bar>x\<bar> * 2 ^ p" using assms(1) by simp
    then show ?thesis by (simp only: le_floor_iff)
  qed
  have hi: "?N < 2 ^ (53 + s)"
  proof -
    have "\<bar>x\<bar> * 2 ^ p < of_int (2 ^ (53 + s))" using assms(2) by simp
    then show ?thesis by (simp only: floor_less_iff)
  qed
  have le: "bitlen ?N \<le> int (53 + s)"
    using hi bitlen_le_iff_power [of ?N "int (53 + s)"]
    by (simp only: nat_int of_nat_0_le_iff simp_thms)
  have "nat (int (53 + s)) - 1 = 52 + s" by simp
  then have ge: "int (53 + s) \<le> bitlen ?N"
    using lo bitlen_ge_iff_power [of "int (53 + s)" ?N] by (simp only: simp_thms)
  have "nat (bitlen ?N - 53) = s" using le ge by simp
  then show ?thesis by (simp add: round_to_def Let_def)
qed

text \<open>The scale that \<open>round_to\<close> chooses for a positive argument.\<close>

lemma round_to_scale:
  assumes "0 < x"
  shows "\<exists>s. round_to p x = of_int (round_half_even (x * 2 ^ p / 2 ^ s)) * 2 ^ s / 2 ^ p
     \<and> (s = 0 \<or> 2 ^ (52 + s) \<le> x * 2 ^ p)"
proof -
  let ?N = "\<lfloor>\<bar>x\<bar> * 2 ^ p\<rfloor>"
  let ?s = "nat (bitlen ?N - 53)"
  have f: "round_to p x = of_int (round_half_even (x * 2 ^ p / 2 ^ ?s)) * 2 ^ ?s / 2 ^ p"
    by (simp add: round_to_def Let_def)
  have "?s = 0 \<or> 2 ^ (52 + ?s) \<le> x * 2 ^ p"
  proof (cases "?s = 0")
    case True
    then show ?thesis by simp
  next
    case False
    then have b: "53 < bitlen ?N" by simp
    then have pos: "0 < ?N" using bitlen_eq_zero_iff [of ?N] by linarith
    have "2 ^ nat (bitlen ?N - 1) \<le> ?N" using bitlen_bounds [OF pos] by blast
    moreover have "nat (bitlen ?N - 1) = 52 + ?s" using b by simp
    ultimately have "2 ^ (52 + ?s) \<le> ?N" by simp
    then have "(of_int (2 ^ (52 + ?s)) :: real) \<le> \<bar>x\<bar> * 2 ^ p"
      by (simp only: le_floor_iff)
    then show ?thesis using assms by simp
  qed
  then show ?thesis using f by blast
qed

lemma round_to_ge_int:
  assumes n: "0 < n" "n \<le> 2 ^ 52" and z: "of_int n \<le> z"
  shows "of_int n \<le> round_to p z"
proof -
  have zpos: "0 < z" using n(1) z by (smt (verit) of_int_pos)
  from round_to_scale [OF zpos] obtain s where
    f: "round_to p z = of_int (round_half_even (z * 2 ^ p / 2 ^ s)) * 2 ^ s / 2 ^ p"
    and s: "s = 0 \<or> 2 ^ (52 + s) \<le> z * 2 ^ p" by blast
  show ?thesis
  proof (cases "s \<le> p")
    case True
    have pd: "(2 :: real) ^ (p - s) = 2 ^ p / 2 ^ s"
      using True by (simp add: power_diff)
    have "(of_int (n * 2 ^ (p - s)) :: real) = of_int n * 2 ^ (p - s)" by simp
    also have "\<dots> = of_int n * 2 ^ p / 2 ^ s" by (simp only: pd times_divide_eq_right)
    also have "\<dots> \<le> z * 2 ^ p / 2 ^ s"
      using z by (simp add: divide_right_mono)
    finally have "n * 2 ^ (p - s) \<le> round_half_even (z * 2 ^ p / 2 ^ s)"
      by (rule round_half_even_ge)
    then have "(of_int (n * 2 ^ (p - s)) :: real)
        \<le> of_int (round_half_even (z * 2 ^ p / 2 ^ s))"
      by (simp only: of_int_le_iff)
    then have "(of_int n * 2 ^ (p - s) * 2 ^ s :: real)
        \<le> of_int (round_half_even (z * 2 ^ p / 2 ^ s)) * 2 ^ s"
      by (simp add: mult_right_mono)
    moreover have "(2 ^ (p - s) * 2 ^ s :: real) = 2 ^ p"
      using True by (simp flip: power_add)
    ultimately have "(of_int n * 2 ^ p :: real)
        \<le> of_int (round_half_even (z * 2 ^ p / 2 ^ s)) * 2 ^ s"
      by (simp add: mult.assoc)
    then show ?thesis unfolding f by (simp add: le_divide_eq)
  next
    case False
    then have big: "2 ^ (52 + s) \<le> z * 2 ^ p" using s by auto
    have "(of_int (2 ^ 52) :: real) \<le> z * 2 ^ p / 2 ^ s"
      using big by (simp add: le_divide_eq power_add)
    then have "2 ^ 52 \<le> round_half_even (z * 2 ^ p / 2 ^ s)"
      by (rule round_half_even_ge)
    then have r: "(2 ^ 52 :: real) \<le> of_int (round_half_even (z * 2 ^ p / 2 ^ s))"
      by (metis of_int_le_iff of_int_numeral of_int_power)
    have p: "(2 ^ p :: real) \<le> 2 ^ s" using False by (simp add: power_increasing)
    have "(of_int n :: real) \<le> 2 ^ 52" using n(2)
      by (metis of_int_le_iff of_int_numeral of_int_power)
    also have "(2 ^ 52 :: real) * 2 ^ p
        \<le> of_int (round_half_even (z * 2 ^ p / 2 ^ s)) * 2 ^ s"
      using r p by (intro mult_mono) simp_all
    then have "(2 ^ 52 :: real) \<le> round_to p z" unfolding f by (simp add: le_divide_eq)
    finally show ?thesis .
  qed
qed

lemma round_to_of_int:
  assumes "\<bar>n\<bar> < 2 ^ 53"
  shows "round_to p (of_int n) = of_int n"
proof (cases "n = 0")
  case True
  then show ?thesis by (simp add: round_to_zero)
next
  case False
  let ?N = "\<lfloor>\<bar>of_int n :: real\<bar> * 2 ^ p\<rfloor>"
  let ?s = "nat (bitlen ?N - 53)"
  have N: "?N = \<bar>n\<bar> * 2 ^ p"
  proof -
    have "\<bar>of_int n :: real\<bar> * 2 ^ p = of_int (\<bar>n\<bar> * 2 ^ p)" by simp
    then show ?thesis by (simp only: floor_of_int)
  qed
  have pos: "0 < \<bar>n\<bar>" using False by simp
  have b: "bitlen ?N = bitlen \<bar>n\<bar> + int p"
    unfolding N using bitlen_pow2 [OF pos, of p] by simp
  have "bitlen \<bar>n\<bar> \<le> 53" using assms by (simp add: bitlen_le_iff_power)
  then have s: "?s \<le> p" using b by simp
  have pd: "(2 :: real) ^ (p - ?s) = 2 ^ p / 2 ^ ?s"
    using s by (simp add: power_diff)
  have "(of_int (n * 2 ^ (p - ?s)) :: real) = of_int n * 2 ^ (p - ?s)" by simp
  then have "of_int n * 2 ^ p / 2 ^ ?s = (of_int (n * 2 ^ (p - ?s)) :: real)"
    by (simp only: pd times_divide_eq_right)
  then have "round_half_even (of_int n * 2 ^ p / 2 ^ ?s) = n * 2 ^ (p - ?s)"
    by (simp only: round_half_even_of_int)
  then have "round_to p (of_int n) = of_int (n * 2 ^ (p - ?s)) * 2 ^ ?s / 2 ^ p"
    by (simp add: round_to_def Let_def)
  also have "\<dots> = of_int n * (2 ^ (p - ?s) * 2 ^ ?s) / 2 ^ p" by simp
  also have "(2 ^ (p - ?s) * 2 ^ ?s :: real) = 2 ^ p"
    using s by (simp flip: power_add)
  finally show ?thesis by simp
qed

lemma fl_minus: "fl (- x) = - fl x"
  by (simp add: fl_def round_to_minus)

lemma fl_of_int: "\<bar>n\<bar> < 2 ^ 53 \<Longrightarrow> fl (of_int n) = of_int n"
  by (simp add: fl_def round_to_of_int)

lemma fl_ge_int: "0 < n \<Longrightarrow> n \<le> 2 ^ 52 \<Longrightarrow> of_int n \<le> z \<Longrightarrow> of_int n \<le> fl z"
  unfolding fl_def by (rule round_to_ge_int)

lemma fl_eq:
  "2 ^ (52 + s) \<le> \<bar>x\<bar> * 2 ^ 1074 \<Longrightarrow> \<bar>x\<bar> * 2 ^ 1074 < 2 ^ (53 + s) \<Longrightarrow>
     fl x = of_int (round_half_even (x * 2 ^ 1074 / 2 ^ s)) * 2 ^ s / 2 ^ 1074"
  unfolding fl_def by (rule round_to_eq)

lemma to_float_small: "\<bar>n\<bar> < 2 ^ 53 \<Longrightarrow> to_float n = of_int n"
  by (simp add: to_float_def fl_of_int)

lemma fl_zero: "fl 0 = 0"
  by (simp add: fl_def round_to_zero)

lemma fl_numeral: "(numeral w :: int) < 2 ^ 53 \<Longrightarrow> fl (numeral w) = numeral w"
  using fl_of_int [of "numeral w"] by simp

text \<open>The floats that the examples below meet: the literals of the source, and the
  results of the operations on them. Each value is the argument rounded at the scale of
  its binade.\<close>

lemma fl_1_2: "x = 6 / 5 \<Longrightarrow> fl x = 5404319552844595 / 4503599627370496"
proof -
  assume x: "x = 6 / 5"
  have "fl (6 / 5) = 5404319552844595 / 4503599627370496"
    by (subst fl_eq [where s = 1022]) (simp_all add: round_half_even_def)
  then show ?thesis by (simp only: x)
qed

lemma fl_1_4: "x = 7 / 5 \<Longrightarrow> fl x = 3152519739159347 / 2251799813685248"
proof -
  assume x: "x = 7 / 5"
  have "fl (7 / 5) = 3152519739159347 / 2251799813685248"
    by (subst fl_eq [where s = 1022]) (simp_all add: round_half_even_def)
  then show ?thesis by (simp only: x)
qed

lemma fl_1_1: "x = 11 / 10 \<Longrightarrow> fl x = 2476979795053773 / 2251799813685248"
proof -
  assume x: "x = 11 / 10"
  have "fl (11 / 10) = 2476979795053773 / 2251799813685248"
    by (subst fl_eq [where s = 1022]) (simp_all add: round_half_even_def)
  then show ?thesis by (simp only: x)
qed

lemma fl_0_15: "x = 3 / 20 \<Longrightarrow> fl x = 5404319552844595 / 36028797018963968"
proof -
  assume x: "x = 3 / 20"
  have "fl (3 / 20) = 5404319552844595 / 36028797018963968"
    by (subst fl_eq [where s = 1019]) (simp_all add: round_half_even_def)
  then show ?thesis by (simp only: x)
qed

lemma fl_0_18: "x = 9 / 50 \<Longrightarrow> fl x = 3242591731706757 / 18014398509481984"
proof -
  assume x: "x = 9 / 50"
  have "fl (9 / 50) = 3242591731706757 / 18014398509481984"
    by (subst fl_eq [where s = 1019]) (simp_all add: round_half_even_def)
  then show ?thesis by (simp only: x)
qed

lemma fl_0_22: "x = 11 / 50 \<Longrightarrow> fl x = 7926335344172073 / 36028797018963968"
proof -
  assume x: "x = 11 / 50"
  have "fl (11 / 50) = 7926335344172073 / 36028797018963968"
    by (subst fl_eq [where s = 1019]) (simp_all add: round_half_even_def)
  then show ?thesis by (simp only: x)
qed

lemma fl_3_x_1_2: "x = 16212958658533785 / 4503599627370496 \<Longrightarrow> fl x = 2026619832316723 / 562949953421312"
proof -
  assume x: "x = 16212958658533785 / 4503599627370496"
  have "fl (16212958658533785 / 4503599627370496) = 2026619832316723 / 562949953421312"
    by (subst fl_eq [where s = 1023]) (simp_all add: round_half_even_def)
  then show ?thesis by (simp only: x)
qed

lemma fl_15_x_1_2: "x = 81064793292668925 / 4503599627370496 \<Longrightarrow> fl x = 18"
proof -
  assume x: "x = 81064793292668925 / 4503599627370496"
  have "fl (81064793292668925 / 4503599627370496) = 18"
    by (subst fl_eq [where s = 1026]) (simp_all add: round_half_even_def)
  then show ?thesis by (simp only: x)
qed

lemma fl_30_x_1_2: "x = 81064793292668925 / 2251799813685248 \<Longrightarrow> fl x = 36"
proof -
  assume x: "x = 81064793292668925 / 2251799813685248"
  have "fl (81064793292668925 / 2251799813685248) = 36"
    by (subst fl_eq [where s = 1027]) (simp_all add: round_half_even_def)
  then show ?thesis by (simp only: x)
qed

lemma fl_35_x_1_2: "x = 189151184349560825 / 4503599627370496 \<Longrightarrow> fl x = 42"
proof -
  assume x: "x = 189151184349560825 / 4503599627370496"
  have "fl (189151184349560825 / 4503599627370496) = 42"
    by (subst fl_eq [where s = 1027]) (simp_all add: round_half_even_def)
  then show ?thesis by (simp only: x)
qed

lemma fl_42_x_1_2: "x = 113490710609736495 / 2251799813685248 \<Longrightarrow> fl x = 7093169413108531 / 140737488355328"
proof -
  assume x: "x = 113490710609736495 / 2251799813685248"
  have "fl (113490710609736495 / 2251799813685248) = 7093169413108531 / 140737488355328"
    by (subst fl_eq [where s = 1027]) (simp_all add: round_half_even_def)
  then show ?thesis by (simp only: x)
qed

lemma fl_160_x_1_2: "x = 27021597764222975 / 140737488355328 \<Longrightarrow> fl x = 192"
proof -
  assume x: "x = 27021597764222975 / 140737488355328"
  have "fl (27021597764222975 / 140737488355328) = 192"
    by (subst fl_eq [where s = 1029]) (simp_all add: round_half_even_def)
  then show ?thesis by (simp only: x)
qed

lemma fl_165_x_1_4: "x = 520165756961292255 / 2251799813685248 \<Longrightarrow> fl x = 8127589952520191 / 35184372088832"
proof -
  assume x: "x = 520165756961292255 / 2251799813685248"
  have "fl (520165756961292255 / 2251799813685248) = 8127589952520191 / 35184372088832"
    by (subst fl_eq [where s = 1029]) (simp_all add: round_half_even_def)
  then show ?thesis by (simp only: x)
qed

lemma fl_85_x_1_4: "x = 267964177828544495 / 2251799813685248 \<Longrightarrow> fl x = 8373880557142015 / 70368744177664"
proof -
  assume x: "x = 267964177828544495 / 2251799813685248"
  have "fl (267964177828544495 / 2251799813685248) = 8373880557142015 / 70368744177664"
    by (subst fl_eq [where s = 1028]) (simp_all add: round_half_even_def)
  then show ?thesis by (simp only: x)
qed

lemma fl_12_x_0_22: "x = 23779006032516219 / 9007199254740992 \<Longrightarrow> fl x = 5944751508129055 / 2251799813685248"
proof -
  assume x: "x = 23779006032516219 / 9007199254740992"
  have "fl (23779006032516219 / 9007199254740992) = 5944751508129055 / 2251799813685248"
    by (subst fl_eq [where s = 1023]) (simp_all add: round_half_even_def)
  then show ?thesis by (simp only: x)
qed

lemma fl_40_plus: "x = 96016744055538975 / 2251799813685248 \<Longrightarrow> fl x = 3000523251735593 / 70368744177664"
proof -
  assume x: "x = 96016744055538975 / 2251799813685248"
  have "fl (96016744055538975 / 2251799813685248) = 3000523251735593 / 70368744177664"
    by (subst fl_eq [where s = 1027]) (simp_all add: round_half_even_def)
  then show ?thesis by (simp only: x)
qed

lemma fl_42_64_minus_5: "x = 2648679530847273 / 70368744177664 \<Longrightarrow> fl x = 2648679530847273 / 70368744177664"
proof -
  assume x: "x = 2648679530847273 / 70368744177664"
  have "fl (2648679530847273 / 70368744177664) = 2648679530847273 / 70368744177664"
    by (subst fl_eq [where s = 1027]) (simp_all add: round_half_even_def)
  then show ?thesis by (simp only: x)
qed

lemma fl_37_6: "x = 188 / 5 \<Longrightarrow> fl x = 5291729562160333 / 140737488355328"
proof -
  assume x: "x = 188 / 5"
  have "fl (188 / 5) = 5291729562160333 / 140737488355328"
    by (subst fl_eq [where s = 1027]) (simp_all add: round_half_even_def)
  then show ?thesis by (simp only: x)
qed

lemma fl_7_x_0_15: "x = 37830236869912165 / 36028797018963968 \<Longrightarrow> fl x = 4728779608739021 / 4503599627370496"
proof -
  assume x: "x = 37830236869912165 / 36028797018963968"
  have "fl (37830236869912165 / 36028797018963968) = 4728779608739021 / 4503599627370496"
    by (subst fl_eq [where s = 1022]) (simp_all add: round_half_even_def)
  then show ?thesis by (simp only: x)
qed

lemma fl_18_minus_7: "x = 76336013683929907 / 4503599627370496 \<Longrightarrow> fl x = 4771000855245619 / 281474976710656"
proof -
  assume x: "x = 76336013683929907 / 4503599627370496"
  have "fl (76336013683929907 / 4503599627370496) = 4771000855245619 / 281474976710656"
    by (subst fl_eq [where s = 1026]) (simp_all add: round_half_even_def)
  then show ?thesis by (simp only: x)
qed

lemma fl_speed_7: "x = 1956251088139059 / 281474976710656 \<Longrightarrow> fl x = 1956251088139059 / 281474976710656"
proof -
  assume x: "x = 1956251088139059 / 281474976710656"
  have "fl (1956251088139059 / 281474976710656) = 1956251088139059 / 281474976710656"
    by (subst fl_eq [where s = 1024]) (simp_all add: round_half_even_def)
  then show ?thesis by (simp only: x)
qed

lemma fl_round_7: "x = 69 / 10 \<Longrightarrow> fl x = 3884354678607053 / 562949953421312"
proof -
  assume x: "x = 69 / 10"
  have "fl (69 / 10) = 3884354678607053 / 562949953421312"
    by (subst fl_eq [where s = 1024]) (simp_all add: round_half_even_def)
  then show ?thesis by (simp only: x)
qed

lemma fl_13_x_0_15: "x = 70256154186979735 / 36028797018963968 \<Longrightarrow> fl x = 8782019273372467 / 4503599627370496"
proof -
  assume x: "x = 70256154186979735 / 36028797018963968"
  have "fl (70256154186979735 / 36028797018963968) = 8782019273372467 / 4503599627370496"
    by (subst fl_eq [where s = 1022]) (simp_all add: round_half_even_def)
  then show ?thesis by (simp only: x)
qed

lemma fl_18_minus_13: "x = 72282774019296461 / 4503599627370496 \<Longrightarrow> fl x = 4517673376206029 / 281474976710656"
proof -
  assume x: "x = 72282774019296461 / 4503599627370496"
  have "fl (72282774019296461 / 4503599627370496) = 4517673376206029 / 281474976710656"
    by (subst fl_eq [where s = 1026]) (simp_all add: round_half_even_def)
  then show ?thesis by (simp only: x)
qed

lemma fl_speed_13: "x = 1702923609099469 / 281474976710656 \<Longrightarrow> fl x = 1702923609099469 / 281474976710656"
proof -
  assume x: "x = 1702923609099469 / 281474976710656"
  have "fl (1702923609099469 / 281474976710656) = 1702923609099469 / 281474976710656"
    by (subst fl_eq [where s = 1024]) (simp_all add: round_half_even_def)
  then show ?thesis by (simp only: x)
qed

lemma fl_round_13: "x = 61 / 10 \<Longrightarrow> fl x = 3433994715870003 / 562949953421312"
proof -
  assume x: "x = 61 / 10"
  have "fl (61 / 10) = 3433994715870003 / 562949953421312"
    by (subst fl_eq [where s = 1024]) (simp_all add: round_half_even_def)
  then show ?thesis by (simp only: x)
qed

lemmas fl_values = fl_1_2 fl_1_4 fl_1_1 fl_0_15 fl_0_18 fl_0_22 fl_3_x_1_2 fl_15_x_1_2 fl_30_x_1_2 fl_35_x_1_2 fl_42_x_1_2 fl_160_x_1_2 fl_165_x_1_4 fl_85_x_1_4 fl_12_x_0_22 fl_40_plus fl_42_64_minus_5 fl_37_6 fl_7_x_0_15 fl_18_minus_7 fl_speed_7 fl_round_7 fl_13_x_0_15 fl_18_minus_13 fl_speed_13 fl_round_13

section \<open>The sensor simulator: properties\<close>

lemma randint_range: "a \<le> b \<Longrightarrow> a \<le> fst (randint a b g) \<and> fst (randint a b g) \<le> b"
proof -
  assume ab: "a \<le> b"
  have pos: "0 < nat (b - a + 1)" using ab by simp
  have "fst g (snd g) mod nat (b - a + 1) < nat (b - a + 1)"
    using pos by (rule mod_less_divisor)
  then have "int (fst g (snd g) mod nat (b - a + 1)) < b - a + 1"
    using ab by linarith
  then show ?thesis by (simp add: randint_def)
qed

lemma py_round1_ge:
  assumes "0 < n" "n \<le> 2 ^ 52" "of_int n \<le> x"
  shows "of_int n \<le> py_round1 x"
proof -
  have "of_int (n * 10) \<le> x * 10" using assms(3) by simp
  then have "n * 10 \<le> round_half_even (x * 10)" by (rule round_half_even_ge)
  then have "(of_int (n * 10) :: real) \<le> of_int (round_half_even (x * 10))"
    by (simp only: of_int_le_iff)
  then have "of_int n \<le> (of_int (round_half_even (x * 10)) :: real) / 10" by simp
  then show ?thesis
    unfolding py_round1_def using assms(1,2) by (intro fl_ge_int)
qed

text \<open>
  Claim C6. The time-of-day adjustment has three pairwise disjoint bands on top of the base
  count of the class (high 60, medium 35, low 20). In the rush band (hours 7 to 11 and 16
  to 21) an amount of the class's rush range (high 100..180, medium 60..120, low 30..80) is
  added to the count; in the midday band (hours 12 to 15) an amount of a smaller range
  (high 40..80, medium 20..50, low 10..30) is added; in the night band (hour at least 22 or
  at most 5) the count is replaced: the result lies in the class's night range (high
  15..35, medium 8..20, low 3..12), below the base count, whatever the count was before.
\<close>

theorem time_of_day_bands:
  "base_vehicles_init ''high'' = 60 \<and> base_vehicles_init ''medium'' = 35
   \<and> base_vehicles_init ''low'' = 20
   \<and> (rush_band h \<longrightarrow>
        b + fst (rush_range ct) \<le> fst (time_adjust h ct b g)
        \<and> fst (time_adjust h ct b g) \<le> b + snd (rush_range ct))
   \<and> (midday_band h \<longrightarrow>
        b + fst (midday_range ct) \<le> fst (time_adjust h ct b g)
        \<and> fst (time_adjust h ct b g) \<le> b + snd (midday_range ct)
        \<and> fst (midday_range ct) < fst (rush_range ct)
        \<and> snd (midday_range ct) < snd (rush_range ct))
   \<and> (night_band h \<longrightarrow>
        fst (night_range ct) \<le> fst (time_adjust h ct b g)
        \<and> fst (time_adjust h ct b g) \<le> snd (night_range ct)
        \<and> fst (time_adjust h ct b g) = fst (time_adjust h ct b' g)
        \<and> snd (night_range ct) < base_vehicles_init ct)
   \<and> \<not> (rush_band h \<and> midday_band h) \<and> \<not> (rush_band h \<and> night_band h)
   \<and> \<not> (midday_band h \<and> night_band h)"
proof -
  have r: "\<And>a c. a \<le> c \<Longrightarrow> a \<le> fst (randint a c g) \<and> fst (randint a c g) \<le> c"
    by (rule randint_range)
  have rush: "rush_band h \<Longrightarrow>
        b + fst (rush_range ct) \<le> fst (time_adjust h ct b g)
        \<and> fst (time_adjust h ct b g) \<le> b + snd (rush_range ct)"
    using r [of 100 180] r [of 60 120] r [of 30 80]
    by (simp add: rush_band_def time_adjust_def rush_range_def split_beta)
  have mid: "midday_band h \<Longrightarrow>
        b + fst (midday_range ct) \<le> fst (time_adjust h ct b g)
        \<and> fst (time_adjust h ct b g) \<le> b + snd (midday_range ct)
        \<and> fst (midday_range ct) < fst (rush_range ct)
        \<and> snd (midday_range ct) < snd (rush_range ct)"
    using r [of 40 80] r [of 20 50] r [of 10 30]
    by (simp add: midday_band_def time_adjust_def midday_range_def rush_range_def split_beta)
  have night: "night_band h \<Longrightarrow>
        fst (night_range ct) \<le> fst (time_adjust h ct b g)
        \<and> fst (time_adjust h ct b g) \<le> snd (night_range ct)
        \<and> fst (time_adjust h ct b g) = fst (time_adjust h ct b' g)
        \<and> snd (night_range ct) < base_vehicles_init ct"
    using r [of 15 35] r [of 8 20] r [of 3 12]
    by (auto simp add: night_band_def time_adjust_def night_range_def base_vehicles_init_def)
  have disj: "\<not> (rush_band h \<and> midday_band h) \<and> \<not> (rush_band h \<and> night_band h)
     \<and> \<not> (midday_band h \<and> night_band h)"
    by (auto simp add: rush_band_def midday_band_def night_band_def)
  have bases: "base_vehicles_init ''high'' = 60 \<and> base_vehicles_init ''medium'' = 35
     \<and> base_vehicles_init ''low'' = 20"
    by (simp add: base_vehicles_init_def)
  show ?thesis using bases rush mid night disj by blast
qed

text \<open>One hour of each band: a rush hour of a high class, a midday hour of a medium class
  and a night hour of a low class, where the count that came in plays no role.\<close>

theorem time_of_day_bands_witness:
  "rush_band 8 \<and> fst (time_adjust 8 ''high'' 60 (\<lambda>_. 0, 0)) = 160
   \<and> midday_band 13 \<and> fst (time_adjust 13 ''medium'' 35 (\<lambda>_. 0, 0)) = 55
   \<and> night_band 23 \<and> fst (time_adjust 23 ''low'' 20 (\<lambda>_. 0, 0)) = 3
   \<and> fst (time_adjust 23 ''low'' 20 (\<lambda>_. 0, 0)) = fst (time_adjust 23 ''low'' 1000 (\<lambda>_. 0, 0))"
  using time_of_day_bands [of 8 60 "''high''" "(\<lambda>_. 0, 0)"]
    time_of_day_bands [of 13 35 "''medium''" "(\<lambda>_. 0, 0)"]
    time_of_day_bands [of 23 20 "''low''" "(\<lambda>_. 0, 0)" 1000]
  by (simp add: rush_band_def midday_band_def night_band_def time_adjust_def randint_def)

lemma speed_calc_spec:
  "\<exists>j. fst (spec_jitter ct) \<le> j \<and> j \<le> snd (spec_jitter ct)
     \<and> py_round1 (fst (speed_calc ct vc g)) = spec_speed ct vc j"
proof -
  have r: "\<And>a c. a \<le> c \<Longrightarrow> a \<le> fst (randint a c g) \<and> fst (randint a c g) \<le> c"
    by (rule randint_range)
  consider (high) "ct = ''high''" | (medium) "ct \<noteq> ''high''" "ct = ''medium''"
    | (low) "ct \<noteq> ''high''" "ct \<noteq> ''medium''" by blast
  then show ?thesis
  proof cases
    case high
    then show ?thesis using r [of "- 10" 5]
      by (intro exI [of _ "fst (randint (- 10) 5 g)"])
        (simp add: speed_calc_def spec_speed_def spec_jitter_def spec_floor_def
          spec_intercept_def spec_slope_def split_beta mult.commute)
  next
    case medium
    then show ?thesis using r [of "- 8" 8]
      by (intro exI [of _ "fst (randint (- 8) 8 g)"])
        (simp add: speed_calc_def spec_speed_def spec_jitter_def spec_floor_def
          spec_intercept_def spec_slope_def split_beta mult.commute)
  next
    case low
    then show ?thesis using r [of "- 5" 10]
      by (intro exI [of _ "fst (randint (- 5) 10 g)"])
        (simp add: speed_calc_def spec_speed_def spec_jitter_def spec_floor_def
          spec_intercept_def spec_slope_def split_beta mult.commute)
  qed
qed

lemma spec_floor_le_speed: "spec_floor ct \<le> spec_speed ct c j"
proof -
  have two: "\<And>x::real. (2::real) \<le> py_round1 (max 2 x)"
    using py_round1_ge [of 2] by simp
  have five: "\<And>x::real. (5::real) \<le> py_round1 (max 5 x)"
    using py_round1_ge [of 5] by simp
  have eight: "\<And>x::real. (8::real) \<le> py_round1 (max 8 x)"
    using py_round1_ge [of 8] by simp
  show ?thesis using two five eight
    by (simp add: spec_floor_def spec_speed_def)
qed

lemma sensor_reading_fields:
  "vehicle_count (fst (sensor_reading t sid loc g))
     = max 0 (fst (raw_vehicle_count (dt_hour t) sid (congestion_type loc) g))"
  "avg_speed (fst (sensor_reading t sid loc g))
     = py_round1 (fst (speed_calc (congestion_type loc)
         (fst (raw_vehicle_count (dt_hour t) sid (congestion_type loc) g))
         (snd (raw_vehicle_count (dt_hour t) sid (congestion_type loc) g))))"
  "congestion_level (fst (sensor_reading t sid loc g))
     = level_of (fst (raw_vehicle_count (dt_hour t) sid (congestion_type loc) g))"
  "sensor_id (fst (sensor_reading t sid loc g)) = sid"
  "location (fst (sensor_reading t sid loc g)) = loc"
  by (simp_all add: sensor_reading_def Let_def split_beta)

text \<open>
  Claim C7, as amended. The vehicle count of a reading is the local count clamped at zero.
  The average speed is the class formula (evaluated in float arithmetic, with a jitter of
  the class's range, rounded to one decimal place) applied to the local count before
  clamping; so whenever the reading's vehicle count is positive, the average speed is the
  formula applied to the reading's vehicle count. In every case the average speed is at
  least the floor of the class (2, 5 or 8).
\<close>

theorem avg_speed_from_unclamped_count:
  "vehicle_count (fst (sensor_reading t sid loc g))
     = max 0 (fst (raw_vehicle_count (dt_hour t) sid (congestion_type loc) g))
   \<and> (\<exists>j. fst (spec_jitter (congestion_type loc)) \<le> j
          \<and> j \<le> snd (spec_jitter (congestion_type loc))
          \<and> avg_speed (fst (sensor_reading t sid loc g))
              = spec_speed (congestion_type loc)
                  (fst (raw_vehicle_count (dt_hour t) sid (congestion_type loc) g)) j)
   \<and> (0 < vehicle_count (fst (sensor_reading t sid loc g)) \<longrightarrow>
        (\<exists>j. fst (spec_jitter (congestion_type loc)) \<le> j
          \<and> j \<le> snd (spec_jitter (congestion_type loc))
          \<and> avg_speed (fst (sensor_reading t sid loc g))
              = spec_speed (congestion_type loc)
                  (vehicle_count (fst (sensor_reading t sid loc g))) j))
   \<and> spec_floor (congestion_type loc) \<le> avg_speed (fst (sensor_reading t sid loc g))"
proof -
  let ?ct = "congestion_type loc"
  let ?raw = "raw_vehicle_count (dt_hour t) sid ?ct g"
  let ?r = "fst (sensor_reading t sid loc g)"
  obtain j where j: "fst (spec_jitter ?ct) \<le> j" "j \<le> snd (spec_jitter ?ct)"
    "py_round1 (fst (speed_calc ?ct (fst ?raw) (snd ?raw))) = spec_speed ?ct (fst ?raw) j"
    using speed_calc_spec [of ?ct "fst ?raw" "snd ?raw"] by blast
  have vc: "vehicle_count ?r = max 0 (fst ?raw)"
    by (rule sensor_reading_fields)
  have sp: "avg_speed ?r = spec_speed ?ct (fst ?raw) j"
    using j(3) by (simp add: sensor_reading_fields)
  have pos: "0 < vehicle_count ?r \<Longrightarrow> vehicle_count ?r = fst ?raw"
    using vc by simp
  have fl: "spec_floor ?ct \<le> avg_speed ?r"
    using sp spec_floor_le_speed [of ?ct "fst ?raw" j] by simp
  have ex1: "\<exists>j. fst (spec_jitter ?ct) \<le> j \<and> j \<le> snd (spec_jitter ?ct)
      \<and> avg_speed ?r = spec_speed ?ct (fst ?raw) j"
    using j(1,2) sp by blast
  have ex2: "0 < vehicle_count ?r \<longrightarrow>
     (\<exists>j. fst (spec_jitter ?ct) \<le> j \<and> j \<le> snd (spec_jitter ?ct)
      \<and> avg_speed ?r = spec_speed ?ct (vehicle_count ?r) j)"
    using ex1 pos by auto
  show ?thesis using vc ex1 ex2 fl by blast
qed

lemmas count_defs = raw_vehicle_count_def time_adjust_def base_vehicles_init_def
  randint_def city_multiplier_def py_int_def to_float_small fl_values Let_def

lemmas speed_defs = speed_calc_def randint_def py_round1_def round_half_even_def
  to_float_small fl_minus fl_zero fl_numeral fl_values Let_def

text \<open>The float operations decide where the exact values would tie or be integers:
  \<^verbatim>\<open>int(165 * 1.4)\<close> is 230 and \<^verbatim>\<open>int(85 * 1.4)\<close> is 118, and the speeds
  \<^verbatim>\<open>18 - 7 * 0.15 - 10\<close> and \<^verbatim>\<open>18 - 13 * 0.15 - 10\<close> round to 6.9 and 6.1.\<close>

lemma city_multiplier_truncates:
  "city_multiplier ''mumbai_bandra'' 165 = 230"
  "city_multiplier ''mumbai_bandra'' 85 = 118"
  "city_multiplier ''delhi_dwarka'' 3 = 3"
  "city_multiplier ''delhi_dwarka'' 30 = 36"
  by (simp_all add: city_multiplier_def py_int_def to_float_small fl_values)

lemma speed_near_ties:
  "py_round1 (fst (speed_calc ''high'' 7 (\<lambda>i. 0, 0))) = fl 6.9"
  "py_round1 (fst (speed_calc ''high'' 13 (\<lambda>i. 0, 0))) = fl 6.1"
  by (simp_all add: speed_defs)

text \<open>At night a low-class sensor can draw a negative local count: base 3, times 1.2
  truncated to 3, jitter -15. The reading then has vehicle count 0 and speed 37.6, which is
  the formula at count -12.\<close>

lemma dwarka_night_count:
  "raw_vehicle_count 2 ''delhi_dwarka'' ''low'' (\<lambda>i. 0, 0) = (- 12, (\<lambda>i. 0, 2))"
  by (simp add: count_defs numeral_2_eq_2)

lemma dwarka_night_speed:
  "py_round1 (fst (speed_calc ''low'' (- 12) (\<lambda>i. 0, 2))) = fl 37.6"
  by (simp add: speed_defs)

lemma dwarka_night:
  "vehicle_count (fst (sensor_reading (at_hour 2) ''delhi_dwarka'' dwarka (\<lambda>i. 0, 0))) = 0"
  "avg_speed (fst (sensor_reading (at_hour 2) ''delhi_dwarka'' dwarka (\<lambda>i. 0, 0))) = fl 37.6"
  "congestion_level (fst (sensor_reading (at_hour 2) ''delhi_dwarka'' dwarka (\<lambda>i. 0, 0)))
     = ''Low''"
  by (simp_all add: sensor_reading_fields at_hour_def dwarka_def dwarka_night_count
      dwarka_night_speed level_of_def)

lemma spec_speeds_low_0:
  "spec_speeds ''low'' 0 = [35, 36, 37, 38, 39, 40, 41, 42, 43, 44, 45, 46, 47, 48, 49, 50]"
  by (simp add: spec_speeds_def spec_jitter_def spec_speed_def spec_floor_def
      spec_intercept_def spec_slope_def py_round1_def round_half_even_def upto.simps
      to_float_small fl_zero fl_numeral)

lemma fl_37_6_between: "37 < fl 37.6 \<and> fl 37.6 < 38"
  by (simp add: fl_values)

text \<open>Claim C7 as stated fails there: 37.6 is none of the speeds that the formula gives
  for the reading's vehicle count 0, whatever the jitter.\<close>

theorem avg_speed_counterexample:
  "vehicle_count (fst (sensor_reading (at_hour 2) ''delhi_dwarka'' dwarka (\<lambda>_. 0, 0))) = 0
   \<and> avg_speed (fst (sensor_reading (at_hour 2) ''delhi_dwarka'' dwarka (\<lambda>_. 0, 0))) = fl 37.6
   \<and> avg_speed (fst (sensor_reading (at_hour 2) ''delhi_dwarka'' dwarka (\<lambda>_. 0, 0)))
       \<notin> set (spec_speeds (congestion_type dwarka)
           (vehicle_count (fst (sensor_reading (at_hour 2) ''delhi_dwarka'' dwarka (\<lambda>_. 0, 0)))))"
proof -
  have ct: "congestion_type dwarka = ''low''" by (simp add: dwarka_def)
  have "fl 37.6 \<notin> set (spec_speeds ''low'' 0)"
    using fl_37_6_between unfolding spec_speeds_low_0 by auto
  then show ?thesis by (simp add: dwarka_night ct)
qed

text \<open>A reading with a positive vehicle count.\<close>

theorem avg_speed_from_unclamped_count_witness:
  "0 < vehicle_count (fst (sensor_reading (at_hour 13) ''delhi_dwarka'' dwarka (\<lambda>_. 0, 0)))
   \<and> (\<exists>j. - 5 \<le> j \<and> j \<le> 10
        \<and> avg_speed (fst (sensor_reading (at_hour 13) ''delhi_dwarka'' dwarka (\<lambda>_. 0, 0)))
            = spec_speed ''low'' 21 j)
   \<and> 8 \<le> avg_speed (fst (sensor_reading (at_hour 13) ''delhi_dwarka'' dwarka (\<lambda>_. 0, 0)))"
proof -
  have vc: "vehicle_count (fst (sensor_reading (at_hour 13) ''delhi_dwarka'' dwarka (\<lambda>_. 0, 0))) = 21"
    by (simp add: sensor_reading_fields at_hour_def dwarka_def count_defs)
  show ?thesis
    using avg_speed_from_unclamped_count [of "at_hour 13" "''delhi_dwarka''" dwarka "(\<lambda>_. 0, 0)"]
    by (simp add: vc) (simp add: dwarka_def spec_jitter_def spec_floor_def)
qed

lemma sensor_loop_readings:
  "r \<in> set (fst (sensor_loop t ss g)) \<Longrightarrow>
     \<exists>sid loc g'. (sid, loc) \<in> set ss \<and> r = fst (sensor_reading t sid loc g')"
proof (induction ss arbitrary: g)
  case Nil
  then show ?case by simp
next
  case (Cons a ss)
  obtain sid loc where a: "a = (sid, loc)" by (cases a)
  from Cons.prems a have "r = fst (sensor_reading t sid loc g)
      \<or> r \<in> set (fst (sensor_loop t ss (snd (sensor_reading t sid loc g))))"
    by (simp add: split_beta Let_def)
  then show ?case
  proof
    assume "r = fst (sensor_reading t sid loc g)"
    then show ?thesis using a
      by (intro exI [of _ sid] exI [of _ loc] exI [of _ g]) simp
  next
    assume "r \<in> set (fst (sensor_loop t ss (snd (sensor_reading t sid loc g))))"
    from Cons.IH [OF this] show ?thesis by auto
  qed
qed

lemma generate_sensor_data_readings:
  "r \<in> set (fst (generate_sensor_data w)) \<Longrightarrow>
     \<exists>t sid loc g'. (sid, loc) \<in> set sensors \<and> r = fst (sensor_reading t sid loc g')"
  using sensor_loop_readings
  by (fastforce simp add: generate_sensor_data_def split_beta Let_def)

text \<open>
  Claim C8. The congestion level of a reading is decided by the reading's vehicle count
  alone: it is High when the count is above 80, Medium when it is above 40 and at most 80,
  and Low otherwise. Two readings with the same vehicle count carry the same label,
  whatever the locations and their classes, and every reading that
  \<^verbatim>\<open>generate_sensor_data\<close> returns is labelled so.
\<close>

theorem congestion_level_thresholds:
  "(80 < vehicle_count (fst (sensor_reading t sid loc g)) \<longrightarrow>
      congestion_level (fst (sensor_reading t sid loc g)) = ''High'')
   \<and> (40 < vehicle_count (fst (sensor_reading t sid loc g))
        \<and> vehicle_count (fst (sensor_reading t sid loc g)) \<le> 80 \<longrightarrow>
      congestion_level (fst (sensor_reading t sid loc g)) = ''Medium'')
   \<and> (vehicle_count (fst (sensor_reading t sid loc g)) \<le> 40 \<longrightarrow>
      congestion_level (fst (sensor_reading t sid loc g)) = ''Low'')
   \<and> (vehicle_count (fst (sensor_reading t sid loc g))
        = vehicle_count (fst (sensor_reading t' sid' loc' g')) \<longrightarrow>
      congestion_level (fst (sensor_reading t sid loc g))
        = congestion_level (fst (sensor_reading t' sid' loc' g')))
   \<and> (\<forall>r \<in> set (fst (generate_sensor_data w)).
        (80 < vehicle_count r \<longrightarrow> congestion_level r = ''High'')
        \<and> (40 < vehicle_count r \<and> vehicle_count r \<le> 80 \<longrightarrow> congestion_level r = ''Medium'')
        \<and> (vehicle_count r \<le> 40 \<longrightarrow> congestion_level r = ''Low''))"
proof -
  have one: "\<And>t sid loc g.
     (80 < vehicle_count (fst (sensor_reading t sid loc g)) \<longrightarrow>
        congestion_level (fst (sensor_reading t sid loc g)) = ''High'')
     \<and> (40 < vehicle_count (fst (sensor_reading t sid loc g))
          \<and> vehicle_count (fst (sensor_reading t sid loc g)) \<le> 80 \<longrightarrow>
        congestion_level (fst (sensor_reading t sid loc g)) = ''Medium'')
     \<and> (vehicle_count (fst (sensor_reading t sid loc g)) \<le> 40 \<longrightarrow>
        congestion_level (fst (sensor_reading t sid loc g)) = ''Low'')"
    by (simp add: sensor_reading_fields level_of_def max_def)
  have same: "vehicle_count (fst (sensor_reading t sid loc g))
        = vehicle_count (fst (sensor_reading t' sid' loc' g')) \<longrightarrow>
      congestion_level (fst (sensor_reading t sid loc g))
        = congestion_level (fst (sensor_reading t' sid' loc' g'))"
    using one [of t sid loc g] one [of t' sid' loc' g']
    by (metis linorder_not_less)
  have all: "\<forall>r \<in> set (fst (generate_sensor_data w)).
        (80 < vehicle_count r \<longrightarrow> congestion_level r = ''High'')
        \<and> (40 < vehicle_count r \<and> vehicle_count r \<le> 80 \<longrightarrow> congestion_level r = ''Medium'')
        \<and> (vehicle_count r \<le> 40 \<longrightarrow> congestion_level r = ''Low'')"
  proof
    fix r assume "r \<in> set (fst (generate_sensor_data w))"
    from generate_sensor_data_readings [OF this] obtain t sid loc g'
      where "r = fst (sensor_reading t sid loc g')" by blast
    then show "(80 < vehicle_count r \<longrightarrow> congestion_level r = ''High'')
        \<and> (40 < vehicle_count r \<and> vehicle_count r \<le> 80 \<longrightarrow> congestion_level r = ''Medium'')
        \<and> (vehicle_count r \<le> 40 \<longrightarrow> congestion_level r = ''Low'')"
      using one [of t sid loc g'] by simp
  qed
  show ?thesis using one [of t sid loc g] same all by blast
qed

text \<open>A high-class location at a rush hour with count 177, labelled High; a medium-class
  and a low-class location with the same count 50, both labelled Medium; and the first
  reading of a whole sample taken at night, with count 3, labelled Low.\<close>

theorem congestion_level_thresholds_witness:
  "vehicle_count (fst (sensor_reading (at_hour 8) ''delhi_cp'' connaught (\<lambda>i. 0, 0))) = 177
   \<and> congestion_level (fst (sensor_reading (at_hour 8) ''delhi_cp'' connaught (\<lambda>i. 0, 0)))
       = ''High''
   \<and> congestion_type lajpat \<noteq> congestion_type dwarka
   \<and> vehicle_count (fst (sensor_reading (at_hour 6) ''delhi_lajpat'' lajpat
         (\<lambda>i. if i = 0 then 23 else 0, 0))) = 50
   \<and> vehicle_count (fst (sensor_reading (at_hour 13) ''delhi_dwarka'' dwarka
         (\<lambda>i. if i = 0 then 12 else if i = 1 then 15 else 0, 0))) = 50
   \<and> congestion_level (fst (sensor_reading (at_hour 6) ''delhi_lajpat'' lajpat
         (\<lambda>i. if i = 0 then 23 else 0, 0))) = ''Medium''
   \<and> congestion_level (fst (sensor_reading (at_hour 13) ''delhi_dwarka'' dwarka
         (\<lambda>i. if i = 0 then 12 else if i = 1 then 15 else 0, 0))) = ''Medium''
   \<and> hd (fst (generate_sensor_data example_world)) \<in> set (fst (generate_sensor_data example_world))
   \<and> vehicle_count (hd (fst (generate_sensor_data example_world))) = 3
   \<and> congestion_level (hd (fst (generate_sensor_data example_world))) = ''Low''"
proof -
  let ?hi = "fst (sensor_reading (at_hour 8) ''delhi_cp'' connaught (\<lambda>i. 0, 0))"
  let ?m1 = "fst (sensor_reading (at_hour 6) ''delhi_lajpat'' lajpat
         (\<lambda>i. if i = 0 then 23 else 0, 0))"
  let ?m2 = "fst (sensor_reading (at_hour 13) ''delhi_dwarka'' dwarka
         (\<lambda>i. if i = 0 then 12 else if i = 1 then 15 else 0, 0))"
  let ?lo = "hd (fst (generate_sensor_data example_world))"
  have hi: "vehicle_count ?hi = 177"
    by (simp add: sensor_reading_fields at_hour_def connaught_def count_defs)
  have a: "vehicle_count ?m1 = 50"
    by (simp add: sensor_reading_fields at_hour_def lajpat_def count_defs)
  have b: "vehicle_count ?m2 = 50"
    by (simp add: sensor_reading_fields at_hour_def dwarka_def count_defs)
  have c: "congestion_type lajpat \<noteq> congestion_type dwarka"
    by (simp add: lajpat_def dwarka_def)
  have h: "?lo = fst (sensor_reading (at_hour 2) ''delhi_cp'' connaught (\<lambda>i. 0, 0))"
    by (simp add: generate_sensor_data_def now_def example_world_def sensors_def split_beta
        connaught_def)
  have m: "?lo \<in> set (fst (generate_sensor_data example_world))"
    by (simp add: generate_sensor_data_def now_def example_world_def sensors_def split_beta)
  have v: "vehicle_count ?lo = 3"
    unfolding h by (simp add: sensor_reading_fields at_hour_def connaught_def count_defs)
  have l1: "congestion_level ?hi = ''High''"
    using hi congestion_level_thresholds [of "at_hour 8" "''delhi_cp''" connaught "(\<lambda>i. 0, 0)",
      THEN conjunct1]
    by simp
  have l2: "congestion_level ?m1 = ''Medium''"
    using a congestion_level_thresholds [of "at_hour 6" "''delhi_lajpat''" lajpat
      "(\<lambda>i. if i = 0 then 23 else 0, 0)", THEN conjunct2, THEN conjunct1]
    by simp
  have l3: "congestion_level ?m2 = congestion_level ?m1"
    using a b congestion_level_thresholds [of "at_hour 13" "''delhi_dwarka''" dwarka
      "(\<lambda>i. if i = 0 then 12 else if i = 1 then 15 else 0, 0)" "at_hour 6" "''delhi_lajpat''"
      lajpat "(\<lambda>i. if i = 0 then 23 else 0, 0)",
      THEN conjunct2, THEN conjunct2, THEN conjunct2, THEN conjunct1]
    by simp
  have l4: "congestion_level ?lo = ''Low''"
    using m v congestion_level_thresholds [of "at_hour 6" "''delhi_lajpat''" lajpat
      "(\<lambda>i. 0, 0)" "at_hour 6" "''delhi_lajpat''" lajpat "(\<lambda>i. 0, 0)" example_world,
      THEN conjunct2, THEN conjunct2, THEN conjunct2, THEN conjunct2]
    by auto
  show ?thesis using hi a b c m v l1 l2 l3 l4 by simp
qed

section \<open>The prediction model: properties\<close>

lemma save_model_keeps:
  "the_predictor (snd (save_model w)) = the_predictor w"
  "traffic_data (snd (save_model w)) = traffic_data w"
  "slept (snd (save_model w)) = slept w"
  "insert_faults (snd (save_model w)) = insert_faults w"
  "insert_calls (snd (save_model w)) = insert_calls w"
  by (simp_all add: save_model_def Let_def now_def split_beta)

lemma generate_training_data_keeps:
  "the_predictor (snd (generate_training_data n w)) = the_predictor w"
  "traffic_data (snd (generate_training_data n w)) = traffic_data w"
  "slept (snd (generate_training_data n w)) = slept w"
  "insert_faults (snd (generate_training_data n w)) = insert_faults w"
  "insert_calls (snd (generate_training_data n w)) = insert_calls w"
  by (simp_all add: generate_training_data_def split_beta)

lemma train_model_keeps:
  "traffic_data (snd (train_model sk w)) = traffic_data w"
  "slept (snd (train_model sk w)) = slept w"
  "insert_faults (snd (train_model sk w)) = insert_faults w"
  "insert_calls (snd (train_model sk w)) = insert_calls w"
  by (simp_all add: train_model_def Let_def split_beta save_model_keeps
      generate_training_data_keeps)

lemma train_model_trained:
  "is_trained (the_predictor (snd (train_model sk w)))"
  "fitted_transform (scaler (the_predictor (snd (train_model sk w)))) \<noteq> None"
  "fitted_forest (model (the_predictor (snd (train_model sk w)))) \<noteq> None"
  by (simp_all add: train_model_def Let_def split_beta save_model_keeps)

lemma predict_trained:
  "is_trained (the_predictor w) \<Longrightarrow>
     predict sk h d wt w =
       (case fitted_transform (scaler (the_predictor w)) of
          None \<Rightarrow> (Inl NotFittedError, w)
        | Some tr \<Rightarrow>
            (case fitted_forest (model (the_predictor w)) of
               None \<Rightarrow> (Inl NotFittedError, w)
             | Some fo \<Rightarrow> (Inr (max 0 (py_int (fo (tr (h, d, wt))))), w)))"
  by (simp add: predict_def Let_def)

lemma predict_untrained:
  "\<not> is_trained (the_predictor w) \<Longrightarrow>
     predict sk h d wt w = predict sk h d wt (snd (train_model sk w))"
  by (simp add: predict_def Let_def train_model_trained)

lemma predict_state:
  "snd (predict sk h d wt w) =
     (if is_trained (the_predictor w) then w else snd (train_model sk w))"
  by (simp add: predict_def Let_def split: option.splits)

text \<open>
  Claim C3. Called while \<^verbatim>\<open>is_trained\<close> is false, \<^verbatim>\<open>predict\<close> first runs
  \<^verbatim>\<open>train_model\<close>: the state it leaves is the state that one training run leaves, the
  value it returns is the one computed on that state, the model is trained afterwards, and
  the call returns a value, not an error. Called while \<^verbatim>\<open>is_trained\<close> is true, it
  leaves the whole state as it was: nothing is drawn from the generator, no file is written
  and the model is not fitted again.
\<close>

theorem predict_auto_trains:
  "(\<not> is_trained (the_predictor w) \<longrightarrow>
      snd (predict sk h d wt w) = snd (train_model sk w)
      \<and> fst (predict sk h d wt w) = fst (predict sk h d wt (snd (train_model sk w)))
      \<and> is_trained (the_predictor (snd (predict sk h d wt w)))
      \<and> (\<exists>v. fst (predict sk h d wt w) = Inr v))
   \<and> (is_trained (the_predictor w) \<longrightarrow> snd (predict sk h d wt w) = w)"
proof -
  have trained: "is_trained (the_predictor w) \<Longrightarrow> snd (predict sk h d wt w) = w"
    by (simp add: predict_state)
  have untrained: "\<not> is_trained (the_predictor w) \<Longrightarrow>
      snd (predict sk h d wt w) = snd (train_model sk w)
      \<and> fst (predict sk h d wt w) = fst (predict sk h d wt (snd (train_model sk w)))
      \<and> is_trained (the_predictor (snd (predict sk h d wt w)))
      \<and> (\<exists>v. fst (predict sk h d wt w) = Inr v)"
  proof -
    assume u: "\<not> is_trained (the_predictor w)"
    let ?w1 = "snd (train_model sk w)"
    obtain tr where tr: "fitted_transform (scaler (the_predictor ?w1)) = Some tr"
      using train_model_trained(2) [of sk w] by auto
    obtain fo where fo: "fitted_forest (model (the_predictor ?w1)) = Some fo"
      using train_model_trained(3) [of sk w] by auto
    have eq: "predict sk h d wt w = predict sk h d wt ?w1"
      using u by (rule predict_untrained)
    have val: "predict sk h d wt ?w1 = (Inr (max 0 (py_int (fo (tr (h, d, wt))))), ?w1)"
      using tr fo by (simp add: predict_trained train_model_trained(1))
    show ?thesis using eq val train_model_trained(1) [of sk w] by simp
  qed
  show ?thesis using trained untrained by blast
qed

text \<open>An untrained and a trained predictor in the same surroundings.\<close>

theorem predict_auto_trains_witness:
  "\<not> is_trained (the_predictor (example_world\<lparr>the_predictor := fresh_predictor\<rparr>))
   \<and> is_trained (the_predictor (snd (predict example_sklearn 8 1 0
        (example_world\<lparr>the_predictor := fresh_predictor\<rparr>))))
   \<and> (\<exists>v. fst (predict example_sklearn 8 1 0
        (example_world\<lparr>the_predictor := fresh_predictor\<rparr>)) = Inr v)
   \<and> is_trained (the_predictor example_world)
   \<and> snd (predict example_sklearn 8 1 0 example_world) = example_world"
proof -
  have u: "\<not> is_trained (the_predictor (example_world\<lparr>the_predictor := fresh_predictor\<rparr>))"
    by (simp add: fresh_predictor_def)
  have t: "is_trained (the_predictor example_world)"
    by (simp add: example_world_def trained_predictor_def)
  show ?thesis
    using u t
      predict_auto_trains [of "example_world\<lparr>the_predictor := fresh_predictor\<rparr>"
        example_sklearn 8 1 0]
      predict_auto_trains [of example_world example_sklearn 8 1 0]
    by blast
qed

lemma predict_again:
  "predict sk h d wt (snd (predict sk h d wt w)) = predict sk h d wt w"
proof (cases "is_trained (the_predictor w)")
  case True
  then have s: "snd (predict sk h d wt w) = w" by (simp add: predict_state)
  show ?thesis unfolding s by simp
next
  case False
  then have s: "snd (predict sk h d wt w) = snd (train_model sk w)"
    by (simp add: predict_state)
  show ?thesis unfolding s using False by (simp add: predict_untrained)
qed

lemma predict_repeat_same:
  "fst (predict sk h d wt w) = Inr v \<Longrightarrow>
     fst (predict_repeat sk n h d wt w) = Inr (replicate n v)"
proof (induction n arbitrary: w)
  case 0
  show ?case by simp
next
  case (Suc n)
  let ?w1 = "snd (predict sk h d wt w)"
  have "fst (predict sk h d wt ?w1) = Inr v"
    using Suc.prems by (simp add: predict_again)
  from Suc.IH [OF this] have r: "fst (predict_repeat sk n h d wt ?w1) = Inr (replicate n v)" .
  show ?case
    using Suc.prems r by (simp add: split_beta)
qed

text \<open>
  Claim C4. For a trained predictor, the result of \<^verbatim>\<open>predict\<close> depends on the
  arguments and on the fitted estimator and scaler only: two calls with the same arguments
  in any two states that hold the same predictor return the same result, whatever the
  generator, the clock, the files and the table are. A call leaves the predictor as it
  was, so a repeated call returns the same result again, and \<open>n\<close> calls in a row with
  the same arguments return \<open>n\<close> times the same integer.
\<close>

theorem predict_deterministic:
  "is_trained (the_predictor w1) \<Longrightarrow> the_predictor w2 = the_predictor w1 \<Longrightarrow>
     fst (predict sk h d wt w1) = fst (predict sk' h d wt w2)
     \<and> the_predictor (snd (predict sk h d wt w1)) = the_predictor w1
     \<and> fst (predict sk h d wt (snd (predict sk h d wt w1))) = fst (predict sk h d wt w1)
     \<and> (fst (predict sk h d wt w1) = Inr v \<longrightarrow>
          fst (predict_repeat sk n h d wt w1) = Inr (replicate n v))"
proof -
  assume t: "is_trained (the_predictor w1)" and p: "the_predictor w2 = the_predictor w1"
  have a: "fst (predict sk h d wt w1) = fst (predict sk' h d wt w2)"
    using t p by (simp add: predict_trained split: option.splits)
  have b: "the_predictor (snd (predict sk h d wt w1)) = the_predictor w1"
    using t by (simp add: predict_state)
  have c: "fst (predict sk h d wt (snd (predict sk h d wt w1))) = fst (predict sk h d wt w1)"
    by (simp only: predict_again)
  show ?thesis using a b c predict_repeat_same [of sk h d wt w1 v n] by blast
qed

text \<open>Two states with the same predictor and different generators, and three calls in a
  row.\<close>

theorem predict_deterministic_witness:
  "is_trained (the_predictor example_world)
   \<and> the_predictor (example_world\<lparr>random_state := (\<lambda>i. 7, 3), slept := 60\<rparr>)
       = the_predictor example_world
   \<and> fst (predict example_sklearn 8 1 0 example_world) = Inr 139
   \<and> fst (predict example_sklearn 8 1 0
        (example_world\<lparr>random_state := (\<lambda>i. 7, 3), slept := 60\<rparr>)) = Inr 139
   \<and> fst (predict example_sklearn 8 1 0 (snd (predict example_sklearn 8 1 0 example_world)))
       = Inr 139
   \<and> fst (predict_repeat example_sklearn (Suc (Suc (Suc 0))) 8 1 0 example_world)
       = Inr [139, 139, 139]"
proof -
  have t: "is_trained (the_predictor example_world)"
    by (simp add: example_world_def trained_predictor_def)
  have v: "fst (predict example_sklearn 8 1 0 example_world) = Inr 139"
    by (simp add: predict_def example_world_def trained_predictor_def example_forest_def
        example_transform_def py_int_def)
  have e: "the_predictor (example_world\<lparr>random_state := (\<lambda>i. 7, 3), slept := 60\<rparr>)
       = the_predictor example_world"
    by simp
  show ?thesis
    using t v predict_deterministic [OF t e, of example_sklearn 8 1 0
        example_sklearn 139 "Suc (Suc (Suc 0))"]
    by simp
qed

lemma max_py_int: "max 0 (py_int x) = (if 0 \<le> x then \<lfloor>x\<rfloor> else 0)"
proof (cases "0 \<le> x")
  case True
  then have "0 \<le> \<lfloor>x\<rfloor>" by simp
  then show ?thesis using True by (simp add: py_int_def)
next
  case False
  then have "\<lceil>x\<rceil> \<le> 0" by (simp add: ceiling_le_iff)
  then show ?thesis using False by (simp add: py_int_def)
qed

text \<open>
  Claim C5. Every value that \<^verbatim>\<open>predict\<close> returns is a non-negative integer: it is
  the output of the fitted estimator on the scaled feature tuple, truncated by
  \<^verbatim>\<open>int\<close> and clamped at zero, which is the floor of a non-negative output and 0 for
  a negative one.
\<close>

theorem predict_nonnegative:
  "fst (predict sk h d wt w) = Inr v \<Longrightarrow>
     0 \<le> v
     \<and> (\<exists>tr fo.
          fitted_transform (scaler (the_predictor (snd (predict sk h d wt w)))) = Some tr
          \<and> fitted_forest (model (the_predictor (snd (predict sk h d wt w)))) = Some fo
          \<and> v = max 0 (py_int (fo (tr (h, d, wt))))
          \<and> v = (if 0 \<le> fo (tr (h, d, wt)) then \<lfloor>fo (tr (h, d, wt))\<rfloor> else 0))"
proof -
  assume a: "fst (predict sk h d wt w) = Inr v"
  let ?w1 = "snd (predict sk h d wt w)"
  have w1: "?w1 = (if \<not> is_trained (the_predictor w) then snd (train_model sk w) else w)"
    by (simp add: predict_state)
  from a obtain tr fo where tr: "fitted_transform (scaler (the_predictor ?w1)) = Some tr"
    and fo: "fitted_forest (model (the_predictor ?w1)) = Some fo"
    and v: "v = max 0 (py_int (fo (tr (h, d, wt))))"
    unfolding w1 by (auto simp add: predict_def Let_def split: option.splits)
  have "0 \<le> v" using v by simp
  moreover have "v = (if 0 \<le> fo (tr (h, d, wt)) then \<lfloor>fo (tr (h, d, wt))\<rfloor> else 0)"
    using v by (simp only: max_py_int)
  ultimately show ?thesis using tr fo v by blast
qed

text \<open>An estimator output of -10.5 gives 0, one of 139.5 gives 139.\<close>

theorem predict_nonnegative_witness:
  "fst (predict example_sklearn 2 1 0 example_world) = Inr 0
   \<and> example_forest (example_transform (2, 1, 0)) = - 10.5
   \<and> fst (predict example_sklearn 8 1 0 example_world) = Inr 139
   \<and> example_forest (example_transform (8, 1, 0)) = 139.5"
proof -
  have a: "fst (predict example_sklearn 2 1 0 example_world) = Inr 0"
    by (simp add: predict_def example_world_def trained_predictor_def example_forest_def
        example_transform_def py_int_def)
  have b: "fst (predict example_sklearn 8 1 0 example_world) = Inr 139"
    by (simp add: predict_def example_world_def trained_predictor_def example_forest_def
        example_transform_def py_int_def)
  show ?thesis
    using predict_nonnegative [OF a] predict_nonnegative [OF b] a b
    by (simp add: example_forest_def example_transform_def)
qed

section \<open>Loading the model: properties\<close>

lemmas load_defs = load_model_def load_model_try_def path_exists_def pickle_load_def
  json_load_def Let_def

lemma load_model_missing:
  assumes "model_file (files w) = Absent \<or> model_file (files w) = Unreadable
     \<or> scaler_file (files w) = Absent \<or> scaler_file (files w) = Unreadable"
  shows "fst (load_model w) = False"
    and "is_trained (the_predictor (snd (load_model w))) = is_trained (the_predictor w)"
  using assms
  by (cases "model_file (files w)"; cases "scaler_file (files w)"; simp add: load_defs)+

lemma load_model_true:
  assumes "fst (load_model w) = True"
  shows "\<exists>m sc. model_file (files w) = Stored m \<and> scaler_file (files w) = Stored sc
     \<and> the_predictor (snd (load_model w)) = \<lparr>model = m, scaler = sc, is_trained = True\<rparr>"
  using assms
  by (cases "model_file (files w)"; cases "scaler_file (files w)";
      cases "model_info_file (files w)"; simp add: load_defs)

lemma load_model_handler:
  "fst (load_model_try w) = Inl e \<Longrightarrow> fst (load_model w) = False"
  by (simp add: load_model_def split_beta split: sum.splits)

lemma load_model_files: "files (snd (load_model w)) = files w"
  by (cases "model_file (files w)"; cases "scaler_file (files w)";
      cases "model_info_file (files w)"; simp add: load_defs)

text \<open>What holds of the two pickle files: when the model file or the scaler file is
  absent or does not load, \<^verbatim>\<open>load_model\<close> returns \<^verbatim>\<open>False\<close> and leaves
  \<^verbatim>\<open>is_trained\<close> as it was; an exception raised inside the \<^verbatim>\<open>try\<close> block never
  leaves the function; and \<^verbatim>\<open>True\<close> is returned only with both objects restored.\<close>

lemma load_model_required_files:
  "((model_file (files w) = Absent \<or> model_file (files w) = Unreadable
      \<or> scaler_file (files w) = Absent \<or> scaler_file (files w) = Unreadable) \<longrightarrow>
       fst (load_model w) = False
       \<and> is_trained (the_predictor (snd (load_model w))) = is_trained (the_predictor w)
       \<and> \<not> is_trained (the_predictor (TrafficPredictor w)))
   \<and> (fst (load_model_try w) = Inl e \<longrightarrow> fst (load_model w) = False)
   \<and> (fst (load_model w) = True \<longrightarrow>
        (\<exists>m sc. model_file (files w) = Stored m \<and> scaler_file (files w) = Stored sc
           \<and> the_predictor (snd (load_model w))
               = \<lparr>model = m, scaler = sc, is_trained = True\<rparr>))"
proof -
  let ?w0 = "w\<lparr>the_predictor :=
            \<lparr>model = \<lparr>n_estimators = 100, fitted_forest = None\<rparr>,
             scaler = \<lparr>fitted_transform = None\<rparr>,
             is_trained = False\<rparr>\<rparr>"
  have init: "TrafficPredictor w = snd (load_model ?w0)"
    by (simp add: TrafficPredictor_def)
  have f0: "files ?w0 = files w" by simp
  have a: "(model_file (files w) = Absent \<or> model_file (files w) = Unreadable
      \<or> scaler_file (files w) = Absent \<or> scaler_file (files w) = Unreadable) \<Longrightarrow>
       fst (load_model w) = False
       \<and> is_trained (the_predictor (snd (load_model w))) = is_trained (the_predictor w)
       \<and> \<not> is_trained (the_predictor (TrafficPredictor w))"
    using load_model_missing [of w] load_model_missing(2) [of ?w0]
    unfolding init f0 by simp
  show ?thesis
    using a load_model_handler [of w e] load_model_true [of w] by blast
qed

text \<open>A metadata file that does not parse: the model and the scaler are restored and the
  flag is set before \<^verbatim>\<open>json.load\<close> raises, so the call returns \<^verbatim>\<open>False\<close> with the
  predictor trained.\<close>

lemma load_model_bad_info:
  "model_file (files w) = Stored m \<Longrightarrow> scaler_file (files w) = Stored sc \<Longrightarrow>
   model_info_file (files w) = Unreadable \<Longrightarrow>
     fst (load_model w) = False
     \<and> the_predictor (snd (load_model w)) = \<lparr>model = m, scaler = sc, is_trained = True\<rparr>"
  by (simp add: load_defs)

text \<open>
  Claim C9 does not hold of the code. The claim: \<^verbatim>\<open>load_model\<close> returns false with the
  model left untrained whenever a file it reads is absent or unreadable. With both pickle
  files in order and a metadata file that is present but does not parse, line 118 has set
  \<^verbatim>\<open>is_trained\<close> before \<^verbatim>\<open>json.load\<close> raises in line 123: the handler reports that
  a new model will be trained and the function returns \<^verbatim>\<open>False\<close>, but the predictor
  is trained, also when it comes from the constructor, and \<^verbatim>\<open>predict\<close> then uses the
  loaded objects without any training.
\<close>

theorem load_model_unparsable_metadata:
  "\<not> is_trained (the_predictor stale_metadata_world)
   \<and> model_file (files stale_metadata_world) = Stored (model trained_predictor)
   \<and> scaler_file (files stale_metadata_world) = Stored (scaler trained_predictor)
   \<and> model_info_file (files stale_metadata_world) = Unreadable
   \<and> fst (load_model_try stale_metadata_world) = Inl JSONDecodeError
   \<and> fst (load_model stale_metadata_world) = False
   \<and> is_trained (the_predictor (snd (load_model stale_metadata_world)))
   \<and> is_trained (the_predictor (TrafficPredictor stale_metadata_world))
   \<and> snd (predict example_sklearn 8 1 0 (TrafficPredictor stale_metadata_world))
       = TrafficPredictor stale_metadata_world"
proof -
  have t: "is_trained (the_predictor (TrafficPredictor stale_metadata_world))"
    by (simp add: TrafficPredictor_def load_defs stale_metadata_world_def example_world_def)
  have p: "snd (predict example_sklearn 8 1 0 (TrafficPredictor stale_metadata_world))
       = TrafficPredictor stale_metadata_world"
    using t by (simp add: predict_state)
  show ?thesis
    using t p
    by (simp add: load_defs stale_metadata_world_def example_world_def fresh_predictor_def)
qed

section \<open>The store and the collector: properties\<close>

lemma predict_keeps:
  "traffic_data (snd (predict sk h d wt w)) = traffic_data w"
  "slept (snd (predict sk h d wt w)) = slept w"
  "insert_faults (snd (predict sk h d wt w)) = insert_faults w"
  "insert_calls (snd (predict sk h d wt w)) = insert_calls w"
  by (simp_all add: predict_state train_model_keeps)

lemma predict_Inr_nonneg: "fst (predict sk h d wt w) = Inr v \<Longrightarrow> 0 \<le> v"
  by (auto simp add: predict_def Let_def split: option.splits)

lemma now_keeps:
  "traffic_data (snd (now w)) = traffic_data w"
  "slept (snd (now w)) = slept w"
  by (simp_all add: now_def)

lemma random_randint_keeps:
  "traffic_data (snd (random_randint a b w)) = traffic_data w"
  "slept (snd (random_randint a b w)) = slept w"
  by (simp_all add: random_randint_def split_beta)

lemma execute_insert_keeps:
  "traffic_data (snd (execute_insert rec pf pending w)) = traffic_data w"
  "slept (snd (execute_insert rec pf pending w)) = slept w"
  by (simp_all add: execute_insert_def Let_def split: option.splits)

lemma execute_insert_Inr:
  "execute_insert rec pf pending w = (Inr pending', w') \<Longrightarrow>
     \<exists>r. pending' = pending @ [r] \<and> col_sensor_id r = Some (sensor_id rec)
       \<and> col_predicted_flow r = Some pf"
  by (auto simp add: execute_insert_def Let_def split: if_splits option.splits)

text \<open>The preamble of one iteration of the loop: the state in which the
  \<^verbatim>\<open>INSERT\<close> is executed, and the outcome of \<^verbatim>\<open>predict\<close>.\<close>

lemma store_loop_Cons:
  "store_loop sk (rec # rest) pending w =
     (let w2 = snd (random_randint 0 2 (snd (now w)));
          p = predict sk (dt_hour (fst (now w))) (dt_weekday (fst (now w)))
                (fst (random_randint 0 2 (snd (now w)))) w2
      in case fst p of
           Inl e \<Rightarrow> (Inl e, snd p)
         | Inr pf \<Rightarrow>
             (case fst (execute_insert rec pf pending (snd p)) of
                Inl e \<Rightarrow> (Inl e, snd (execute_insert rec pf pending (snd p)))
              | Inr pending' \<Rightarrow>
                  store_loop sk rest pending' (snd (execute_insert rec pf pending (snd p)))))"
  by (simp add: split_beta Let_def split: sum.splits)

lemma store_loop_keeps:
  "traffic_data (snd (store_loop sk data pending w)) = traffic_data w
   \<and> slept (snd (store_loop sk data pending w)) = slept w"
proof (induction data arbitrary: pending w)
  case Nil
  show ?case by simp
next
  case (Cons rec rest)
  show ?case
    unfolding store_loop_Cons
    by (simp add: Let_def Cons.IH predict_keeps now_keeps random_randint_keeps
        execute_insert_keeps split: sum.splits)
qed

lemma store_loop_Inr:
  "fst (store_loop sk data pending w) = Inr pending' \<Longrightarrow>
     \<exists>new. pending' = pending @ new
       \<and> map col_sensor_id new = map (\<lambda>r. Some (sensor_id r)) data
       \<and> (\<forall>r \<in> set new. \<exists>v. col_predicted_flow r = Some v \<and> 0 \<le> v)"
proof (induction data arbitrary: pending w)
  case Nil
  then show ?case by simp
next
  case (Cons rec rest)
  let ?w2 = "snd (random_randint 0 2 (snd (now w)))"
  let ?p = "predict sk (dt_hour (fst (now w))) (dt_weekday (fst (now w)))
                (fst (random_randint 0 2 (snd (now w)))) ?w2"
  from Cons.prems obtain pf where pf: "fst ?p = Inr pf"
    unfolding store_loop_Cons by (cases "fst ?p") (simp_all add: Let_def)
  let ?x = "execute_insert rec pf pending (snd ?p)"
  from Cons.prems pf obtain mid where mid: "fst ?x = Inr mid"
    unfolding store_loop_Cons by (cases "fst ?x") (simp_all add: Let_def)
  from Cons.prems pf mid have rest: "fst (store_loop sk rest mid (snd ?x)) = Inr pending'"
    unfolding store_loop_Cons by (simp add: Let_def)
  have nonneg: "0 \<le> pf" using pf by (rule predict_Inr_nonneg)
  from mid obtain r where r: "mid = pending @ [r]" "col_sensor_id r = Some (sensor_id rec)"
    "col_predicted_flow r = Some pf"
    using execute_insert_Inr [of rec pf pending "snd ?p" mid "snd ?x"]
    by (metis prod.collapse)
  from Cons.IH [OF rest] obtain new where new: "pending' = mid @ new"
    "map col_sensor_id new = map (\<lambda>r. Some (sensor_id r)) rest"
    "\<forall>r \<in> set new. \<exists>v. col_predicted_flow r = Some v \<and> 0 \<le> v"
    by blast
  show ?case
    using r new nonneg
    by (intro exI [of _ "r # new"]) simp
qed


lemma store_traffic_data_Inl:
  "fst (store_traffic_data sk data w) = Inl e \<Longrightarrow>
     traffic_data (snd (store_traffic_data sk data w)) = traffic_data w"
  using store_loop_keeps [of sk data "[]" w]
  by (cases "fst (store_loop sk data [] w)")
    (simp_all add: store_traffic_data_def split_beta)

lemma store_traffic_data_Inr:
  "fst (store_traffic_data sk data w) = Inr u \<Longrightarrow>
     \<exists>new. traffic_data (snd (store_traffic_data sk data w))
             = map_option (\<lambda>rows. rows @ new) (traffic_data w)
       \<and> map col_sensor_id new = map (\<lambda>r. Some (sensor_id r)) data
       \<and> (\<forall>r \<in> set new. \<exists>v. col_predicted_flow r = Some v \<and> 0 \<le> v)"
proof -
  assume a: "fst (store_traffic_data sk data w) = Inr u"
  then obtain pending where p: "fst (store_loop sk data [] w) = Inr pending"
    by (cases "fst (store_loop sk data [] w)") (simp_all add: store_traffic_data_def split_beta)
  from store_loop_Inr [OF p] have new:
    "map col_sensor_id pending = map (\<lambda>r. Some (sensor_id r)) data"
    "\<forall>r \<in> set pending. \<exists>v. col_predicted_flow r = Some v \<and> 0 \<le> v"
    by auto
  have "traffic_data (snd (store_traffic_data sk data w))
      = map_option (\<lambda>rows. rows @ pending) (traffic_data w)"
    using p store_loop_keeps [of sk data "[]" w]
    by (simp add: store_traffic_data_def split_beta commit_def)
  then show ?thesis using new by blast
qed

lemma store_traffic_data_slept:
  "slept (snd (store_traffic_data sk data w)) = slept w"
  using store_loop_keeps [of sk data "[]" w]
  by (cases "fst (store_loop sk data [] w)")
    (simp_all add: store_traffic_data_def split_beta commit_def)

lemma generate_sensor_data_keeps:
  "traffic_data (snd (generate_sensor_data w)) = traffic_data w"
  "slept (snd (generate_sensor_data w)) = slept w"
  by (simp_all add: generate_sensor_data_def split_beta now_def)

lemma tick_unfold:
  "data_collection_tick sk w =
     sleep 30 (snd (store_traffic_data sk (fst (generate_sensor_data w))
       (snd (generate_sensor_data w))))"
  by (simp add: data_collection_tick_def split_beta split: sum.splits)

lemma tick_slept: "slept (data_collection_tick sk w) = slept w + 30"
  by (simp add: tick_unfold sleep_def store_traffic_data_slept generate_sensor_data_keeps)

lemma job_slept: "slept (data_collection_job sk n w) = slept w + 30 * n"
  by (induction n arbitrary: w) (simp_all add: tick_slept)

lemma store_appends:
  "traffic_data w = Some rows \<Longrightarrow>
     \<exists>new. traffic_data (snd (store_traffic_data sk data w)) = Some (rows @ new)
       \<and> (\<forall>r \<in> set new. col_predicted_flow r \<noteq> None)"
proof (cases "fst (store_traffic_data sk data w)")
  case (Inl e)
  assume "traffic_data w = Some rows"
  then have "traffic_data (snd (store_traffic_data sk data w)) = Some (rows @ [])"
    using store_traffic_data_Inl [OF Inl] by simp
  then show ?thesis by (intro exI [of _ "[]"]) simp
next
  case (Inr u)
  assume "traffic_data w = Some rows"
  then show ?thesis using store_traffic_data_Inr [OF Inr] by fastforce
qed

lemma tick_appends:
  "traffic_data w = Some rows \<Longrightarrow>
     \<exists>new. traffic_data (data_collection_tick sk w) = Some (rows @ new)
       \<and> (\<forall>r \<in> set new. col_predicted_flow r \<noteq> None)"
  using store_appends [of "snd (generate_sensor_data w)" rows sk "fst (generate_sensor_data w)"]
  by (simp add: tick_unfold sleep_def generate_sensor_data_keeps)

lemma job_appends:
  "traffic_data w = Some rows \<Longrightarrow>
     \<exists>new. traffic_data (data_collection_job sk n w) = Some (rows @ new)
       \<and> (\<forall>r \<in> set new. col_predicted_flow r \<noteq> None)"
proof (induction n arbitrary: w rows)
  case 0
  then show ?case by (intro exI [of _ "[]"]) simp
next
  case (Suc n)
  from tick_appends [OF Suc.prems, of sk] obtain new1 where
    t: "traffic_data (data_collection_tick sk w) = Some (rows @ new1)"
    and p1: "\<forall>r \<in> set new1. col_predicted_flow r \<noteq> None"
    by blast
  from Suc.IH [OF t] obtain new2 where
    j: "traffic_data (data_collection_job sk n (data_collection_tick sk w))
          = Some ((rows @ new1) @ new2)"
    and p2: "\<forall>r \<in> set new2. col_predicted_flow r \<noteq> None"
    by blast
  show ?case using j p1 p2
    by (intro exI [of _ "new1 @ new2"]) auto
qed

lemma all_predicted_append:
  "all_predicted w \<Longrightarrow> traffic_data w = Some rows \<Longrightarrow>
   traffic_data w' = Some (rows @ new) \<Longrightarrow> \<forall>r \<in> set new. col_predicted_flow r \<noteq> None \<Longrightarrow>
     all_predicted w'"
  by (auto simp add: all_predicted_def list_all_iff)

text \<open>
  Claim C2. The store write of a tick is all-or-none. When \<^verbatim>\<open>store_traffic_data\<close>
  raises, whether in a prediction or in an \<^verbatim>\<open>INSERT\<close>, the committed table is what
  it was before the call. When it returns, the table has grown by one row for each record
  of the tick, in order.
\<close>

theorem store_all_or_none:
  "(fst (store_traffic_data sk data w) = Inl e \<longrightarrow>
      traffic_data (snd (store_traffic_data sk data w)) = traffic_data w)
   \<and> (fst (store_traffic_data sk data w) = Inr () \<longrightarrow>
        (\<exists>new. traffic_data (snd (store_traffic_data sk data w))
                = map_option (\<lambda>rows. rows @ new) (traffic_data w)
           \<and> map col_sensor_id new = map (\<lambda>r. Some (sensor_id r)) data))"
  using store_traffic_data_Inl [of sk data w e] store_traffic_data_Inr [of sk data w "()"]
  by blast

text \<open>
  Claim C10. \<^verbatim>\<open>store_traffic_data\<close>, and any number of iterations of the collector,
  leave the rows that were in the table as they were and add only rows whose predicted flow
  is not \<^verbatim>\<open>NULL\<close>. So a table created by \<^verbatim>\<open>init_db\<close> never holds a row without a
  predicted flow: the property holds of the new table and is kept by every store call and
  by every iteration of the collector.
\<close>

theorem stored_rows_have_prediction:
  "(traffic_data w = Some rows \<longrightarrow>
      (\<exists>new. traffic_data (snd (store_traffic_data sk data w)) = Some (rows @ new)
         \<and> (\<forall>r \<in> set new. col_predicted_flow r \<noteq> None))
      \<and> (\<exists>new. traffic_data (data_collection_job sk n w) = Some (rows @ new)
         \<and> (\<forall>r \<in> set new. col_predicted_flow r \<noteq> None)))
   \<and> (traffic_data w = None \<longrightarrow> all_predicted (init_db w))
   \<and> (all_predicted w \<longrightarrow>
        all_predicted (snd (store_traffic_data sk data w))
        \<and> all_predicted (data_collection_job sk n w))"
proof -
  have a: "traffic_data w = Some rows \<Longrightarrow>
      (\<exists>new. traffic_data (snd (store_traffic_data sk data w)) = Some (rows @ new)
         \<and> (\<forall>r \<in> set new. col_predicted_flow r \<noteq> None))
      \<and> (\<exists>new. traffic_data (data_collection_job sk n w) = Some (rows @ new)
         \<and> (\<forall>r \<in> set new. col_predicted_flow r \<noteq> None))"
    using store_appends [of w rows sk data] job_appends [of w rows sk n] by blast
  have b: "traffic_data w = None \<Longrightarrow> all_predicted (init_db w)"
    by (simp add: all_predicted_def init_db_def)
  have c: "all_predicted w \<Longrightarrow> all_predicted (snd (store_traffic_data sk data w))"
  proof (cases "traffic_data w")
    case None
    assume "all_predicted w"
    have "traffic_data (snd (store_traffic_data sk data w)) = None"
    proof (cases "fst (store_traffic_data sk data w)")
      case (Inl e)
      then show ?thesis using None store_traffic_data_Inl [OF Inl] by simp
    next
      case (Inr u)
      then show ?thesis using None store_traffic_data_Inr [OF Inr] by auto
    qed
    then show ?thesis by (simp add: all_predicted_def)
  next
    case (Some rs)
    assume ap: "all_predicted w"
    from store_appends [OF Some, of sk data] obtain new where
      "traffic_data (snd (store_traffic_data sk data w)) = Some (rs @ new)"
      "\<forall>r \<in> set new. col_predicted_flow r \<noteq> None" by blast
    then show ?thesis using all_predicted_append [OF ap Some] by blast
  qed
  have tick: "\<And>w. all_predicted w \<Longrightarrow> all_predicted (data_collection_tick sk w)"
  proof -
    fix w assume ap: "all_predicted w"
    show "all_predicted (data_collection_tick sk w)"
    proof (cases "traffic_data w")
      case None
      have g: "traffic_data (snd (generate_sensor_data w)) = None"
        using None by (simp add: generate_sensor_data_keeps)
      let ?s = "store_traffic_data sk (fst (generate_sensor_data w)) (snd (generate_sensor_data w))"
      have "traffic_data (snd ?s) = None"
      proof (cases "fst ?s")
        case (Inl e)
        then show ?thesis using g store_traffic_data_Inl [OF Inl] by simp
      next
        case (Inr u)
        then show ?thesis using g store_traffic_data_Inr [OF Inr] by auto
      qed
      then show ?thesis by (simp add: all_predicted_def tick_unfold sleep_def)
    next
      case (Some rs)
      from tick_appends [OF Some, of sk] obtain new where
        "traffic_data (data_collection_tick sk w) = Some (rs @ new)"
        "\<forall>r \<in> set new. col_predicted_flow r \<noteq> None" by blast
      then show ?thesis using all_predicted_append [OF ap Some] by blast
    qed
  qed
  have d: "all_predicted w \<Longrightarrow> all_predicted (data_collection_job sk n w)"
    by (induction n arbitrary: w) (simp_all add: tick)
  show ?thesis using a b c d by blast
qed

text \<open>
  Claim C1, as amended. When the store operation of an iteration of the collector raises,
  the iteration leaves the table as it was: no record of that tick is persisted. The
  iteration still ends with its sleep of 30 seconds, the loop goes on with the next
  iteration, and after any number \<open>n\<close> of iterations, failed or not, the loop has slept
  \<open>30 * n\<close> seconds.
\<close>

theorem failed_tick_rolls_back_and_loop_continues:
  "(fst (store_traffic_data sk (fst (generate_sensor_data w)) (snd (generate_sensor_data w)))
      = Inl e \<longrightarrow>
      traffic_data (data_collection_tick sk w) = traffic_data w)
   \<and> slept (data_collection_tick sk w) = slept w + 30
   \<and> data_collection_job sk (Suc n) w = data_collection_job sk n (data_collection_tick sk w)
   \<and> slept (data_collection_job sk n w) = slept w + 30 * n"
proof -
  have a: "fst (store_traffic_data sk (fst (generate_sensor_data w))
      (snd (generate_sensor_data w))) = Inl e \<Longrightarrow>
      traffic_data (data_collection_tick sk w) = traffic_data w"
    using store_traffic_data_Inl [of sk "fst (generate_sensor_data w)"
        "snd (generate_sensor_data w)" e]
    by (simp add: tick_unfold sleep_def generate_sensor_data_keeps)
  show ?thesis using a tick_slept [of sk w] job_slept [of sk n w] by simp
qed

lemma sensor_loop_ids: "map sensor_id (fst (sensor_loop t ss g)) = map fst ss"
proof (induction ss arbitrary: g)
  case Nil
  show ?case by simp
next
  case (Cons a ss)
  obtain sid loc where a: "a = (sid, loc)" by (cases a)
  show ?case
    unfolding a
    by (simp add: split_beta sensor_reading_fields Cons.IH)
qed

lemma generate_sensor_data_ids: "map sensor_id (fst (generate_sensor_data w)) = map fst sensors"
  by (simp add: generate_sensor_data_def split_beta sensor_loop_ids)

lemma generate_sensor_data_db:
  "the_predictor (snd (generate_sensor_data w)) = the_predictor w"
  "insert_faults (snd (generate_sensor_data w)) = insert_faults w"
  "insert_calls (snd (generate_sensor_data w)) = insert_calls w"
  by (simp_all add: generate_sensor_data_def split_beta now_def)

text \<open>One iteration of the loop in a ready state: the prediction succeeds, and the
  iteration ends as the \<^verbatim>\<open>INSERT\<close> does.\<close>

lemma store_step_ready:
  assumes "ready w"
  shows "\<exists>w2 pf. the_predictor w2 = the_predictor w \<and> traffic_data w2 = traffic_data w
     \<and> insert_faults w2 = insert_faults w \<and> insert_calls w2 = insert_calls w
     \<and> store_loop sk (rec # rest) pending w =
         (case fst (execute_insert rec pf pending w2) of
            Inl e \<Rightarrow> (Inl e, snd (execute_insert rec pf pending w2))
          | Inr pending' \<Rightarrow>
              store_loop sk rest pending' (snd (execute_insert rec pf pending w2)))"
proof -
  let ?w2 = "snd (random_randint 0 2 (snd (now w)))"
  let ?h = "dt_hour (fst (now w))"
  let ?d = "dt_weekday (fst (now w))"
  let ?wt = "fst (random_randint 0 2 (snd (now w)))"
  have keep: "the_predictor ?w2 = the_predictor w" "traffic_data ?w2 = traffic_data w"
    "insert_faults ?w2 = insert_faults w" "insert_calls ?w2 = insert_calls w"
    by (simp_all add: random_randint_def now_def split_beta)
  from assms obtain tr fo where tr: "fitted_transform (scaler (the_predictor ?w2)) = Some tr"
    and fo: "fitted_forest (model (the_predictor ?w2)) = Some fo"
    and t: "is_trained (the_predictor ?w2)"
    unfolding keep by (auto simp add: ready_def)
  have p1: "fst (predict sk ?h ?d ?wt ?w2) = Inr (max 0 (py_int (fo (tr (?h, ?d, ?wt)))))"
    using tr fo t by (simp add: predict_trained)
  have p2: "snd (predict sk ?h ?d ?wt ?w2) = ?w2"
    using t by (simp add: predict_state)
  have "store_loop sk (rec # rest) pending w =
         (case fst (execute_insert rec (max 0 (py_int (fo (tr (?h, ?d, ?wt))))) pending ?w2) of
            Inl e \<Rightarrow>
              (Inl e, snd (execute_insert rec (max 0 (py_int (fo (tr (?h, ?d, ?wt))))) pending ?w2))
          | Inr pending' \<Rightarrow>
              store_loop sk rest pending'
                (snd (execute_insert rec (max 0 (py_int (fo (tr (?h, ?d, ?wt))))) pending ?w2)))"
    unfolding store_loop_Cons Let_def p1 p2 by simp
  then show ?thesis using keep by blast
qed

lemma execute_insert_fault:
  "insert_faults w (insert_calls w) \<Longrightarrow>
     fst (execute_insert rec pf pending w) = Inl OperationalError"
  by (simp add: execute_insert_def Let_def)

lemma execute_insert_ok:
  "\<not> insert_faults w (insert_calls w) \<Longrightarrow> traffic_data w \<noteq> None \<Longrightarrow>
     \<exists>pending'. fst (execute_insert rec pf pending w) = Inr pending'"
  by (auto simp add: execute_insert_def Let_def)

lemma execute_insert_db:
  "the_predictor (snd (execute_insert rec pf pending w)) = the_predictor w"
  "insert_faults (snd (execute_insert rec pf pending w)) = insert_faults w"
  "insert_calls (snd (execute_insert rec pf pending w)) = Suc (insert_calls w)"
  by (simp_all add: execute_insert_def Let_def split: option.splits)

lemma ready_cong:
  "the_predictor w' = the_predictor w \<Longrightarrow> traffic_data w' = traffic_data w \<Longrightarrow>
     ready w' = ready w"
  by (simp add: ready_def)

text \<open>The loop in a ready state: it succeeds when no \<^verbatim>\<open>INSERT\<close> is faulty, and it
  raises at the first faulty one.\<close>

lemma store_loop_no_fault:
  "ready w \<Longrightarrow> \<forall>k < length data. \<not> insert_faults w (insert_calls w + k) \<Longrightarrow>
     (\<exists>pending'. fst (store_loop sk data pending w) = Inr pending')
     \<and> the_predictor (snd (store_loop sk data pending w)) = the_predictor w
     \<and> insert_faults (snd (store_loop sk data pending w)) = insert_faults w
     \<and> insert_calls (snd (store_loop sk data pending w)) = insert_calls w + length data"
proof (induction data arbitrary: pending w)
  case Nil
  then show ?case by simp
next
  case (Cons rec rest)
  from store_step_ready [OF Cons.prems(1), of sk rec rest pending]
  obtain w2 pf where w2: "the_predictor w2 = the_predictor w"
    "traffic_data w2 = traffic_data w" "insert_faults w2 = insert_faults w"
    "insert_calls w2 = insert_calls w"
    and step: "store_loop sk (rec # rest) pending w =
         (case fst (execute_insert rec pf pending w2) of
            Inl e \<Rightarrow> (Inl e, snd (execute_insert rec pf pending w2))
          | Inr pending' \<Rightarrow>
              store_loop sk rest pending' (snd (execute_insert rec pf pending w2)))"
    by blast
  let ?w3 = "snd (execute_insert rec pf pending w2)"
  have nf: "\<not> insert_faults w2 (insert_calls w2)"
    using Cons.prems(2) w2 by (metis add.right_neutral length_greater_0_conv list.distinct(1))
  have td: "traffic_data w2 \<noteq> None" using Cons.prems(1) w2 by (simp add: ready_def)
  from execute_insert_ok [OF nf td, of rec pf pending]
  obtain mid where mid: "fst (execute_insert rec pf pending w2) = Inr mid" by blast
  have r3: "ready ?w3"
    using Cons.prems(1) w2 by (simp add: ready_def execute_insert_db execute_insert_keeps)
  have f3: "\<forall>k < length rest. \<not> insert_faults ?w3 (insert_calls ?w3 + k)"
  proof (intro allI impI)
    fix k assume "k < length rest"
    then have "Suc k < length (rec # rest)" by simp
    then have "\<not> insert_faults w (insert_calls w + Suc k)" using Cons.prems(2) by blast
    then show "\<not> insert_faults ?w3 (insert_calls ?w3 + k)"
      using w2 by (simp add: execute_insert_db)
  qed
  have eq: "store_loop sk (rec # rest) pending w = store_loop sk rest mid ?w3"
    using step mid by simp
  show ?case
    unfolding eq using Cons.IH [OF r3 f3, of mid] w2
    by (simp add: execute_insert_db)
qed

lemma store_loop_fault:
  "ready w \<Longrightarrow> i < length data \<Longrightarrow> insert_faults w (insert_calls w + i) \<Longrightarrow>
   \<forall>k < i. \<not> insert_faults w (insert_calls w + k) \<Longrightarrow>
     fst (store_loop sk data pending w) = Inl OperationalError
     \<and> the_predictor (snd (store_loop sk data pending w)) = the_predictor w
     \<and> insert_faults (snd (store_loop sk data pending w)) = insert_faults w
     \<and> insert_calls (snd (store_loop sk data pending w)) = insert_calls w + Suc i"
proof (induction data arbitrary: i pending w)
  case Nil
  then show ?case by simp
next
  case (Cons rec rest)
  from store_step_ready [OF Cons.prems(1), of sk rec rest pending]
  obtain w2 pf where w2: "the_predictor w2 = the_predictor w"
    "traffic_data w2 = traffic_data w" "insert_faults w2 = insert_faults w"
    "insert_calls w2 = insert_calls w"
    and step: "store_loop sk (rec # rest) pending w =
         (case fst (execute_insert rec pf pending w2) of
            Inl e \<Rightarrow> (Inl e, snd (execute_insert rec pf pending w2))
          | Inr pending' \<Rightarrow>
              store_loop sk rest pending' (snd (execute_insert rec pf pending w2)))"
    by blast
  let ?w3 = "snd (execute_insert rec pf pending w2)"
  show ?case
  proof (cases i)
    case 0
    then have "insert_faults w2 (insert_calls w2)" using Cons.prems(3) w2 by simp
    then have "fst (execute_insert rec pf pending w2) = Inl OperationalError"
      by (rule execute_insert_fault)
    then show ?thesis using step w2 0 by (simp add: execute_insert_db)
  next
    case (Suc j)
    have nf: "\<not> insert_faults w2 (insert_calls w2)"
      using Cons.prems(4) w2 Suc by (metis add.right_neutral zero_less_Suc)
    have td: "traffic_data w2 \<noteq> None" using Cons.prems(1) w2 by (simp add: ready_def)
    from execute_insert_ok [OF nf td, of rec pf pending]
    obtain mid where mid: "fst (execute_insert rec pf pending w2) = Inr mid" by blast
    have r3: "ready ?w3"
      using Cons.prems(1) w2 by (simp add: ready_def execute_insert_db execute_insert_keeps)
    have j: "j < length rest" using Cons.prems(2) Suc by simp
    have fj: "insert_faults ?w3 (insert_calls ?w3 + j)"
      using Cons.prems(3) w2 Suc by (simp add: execute_insert_db)
    have f3: "\<forall>k < j. \<not> insert_faults ?w3 (insert_calls ?w3 + k)"
    proof (intro allI impI)
      fix k assume "k < j"
      then have "Suc k < i" using Suc by simp
      then have "\<not> insert_faults w (insert_calls w + Suc k)" using Cons.prems(4) by blast
      then show "\<not> insert_faults ?w3 (insert_calls ?w3 + k)"
        using w2 by (simp add: execute_insert_db)
    qed
    have eq: "store_loop sk (rec # rest) pending w = store_loop sk rest mid ?w3"
      using step mid by simp
    show ?thesis
      unfolding eq using Cons.IH [OF r3 j fj f3, of mid] w2 Suc
      by (simp add: execute_insert_db)
  qed
qed

lemma store_traffic_data_fault:
  assumes "ready w" "i < length data" "insert_faults w (insert_calls w + i)"
    "\<forall>k < i. \<not> insert_faults w (insert_calls w + k)"
  shows "fst (store_traffic_data sk data w) = Inl OperationalError"
    and "the_predictor (snd (store_traffic_data sk data w)) = the_predictor w"
    and "insert_faults (snd (store_traffic_data sk data w)) = insert_faults w"
    and "insert_calls (snd (store_traffic_data sk data w)) = insert_calls w + Suc i"
  using store_loop_fault [OF assms, of sk "[]"]
  by (simp_all add: store_traffic_data_def split_beta)

lemma store_traffic_data_no_fault:
  assumes "ready w" "\<forall>k < length data. \<not> insert_faults w (insert_calls w + k)"
  shows "fst (store_traffic_data sk data w) = Inr ()"
    and "persisted_ids (snd (store_traffic_data sk data w))
           = persisted_ids w @ map (\<lambda>r. Some (sensor_id r)) data"
proof -
  from store_loop_no_fault [OF assms, of sk "[]"] obtain pending where
    p: "fst (store_loop sk data [] w) = Inr pending" by blast
  show ok: "fst (store_traffic_data sk data w) = Inr ()"
    using p by (simp add: store_traffic_data_def split_beta)
  from assms(1) obtain rows where rows: "traffic_data w = Some rows"
    by (auto simp add: ready_def)
  from store_traffic_data_Inr [OF ok] obtain new where
    "traffic_data (snd (store_traffic_data sk data w)) = Some (rows @ new)"
    "map col_sensor_id new = map (\<lambda>r. Some (sensor_id r)) data"
    using rows by auto
  then show "persisted_ids (snd (store_traffic_data sk data w))
           = persisted_ids w @ map (\<lambda>r. Some (sensor_id r)) data"
    using rows by (simp add: persisted_ids_def)
qed

lemma generate_sensor_data_ready: "ready (snd (generate_sensor_data w)) = ready w"
  by (rule ready_cong) (simp_all add: generate_sensor_data_db generate_sensor_data_keeps)

lemma length_generate_sensor_data: "length (fst (generate_sensor_data w)) = length sensors"
proof -
  have "length (map sensor_id (fst (generate_sensor_data w))) = length (map fst sensors)"
    by (simp only: generate_sensor_data_ids)
  then show ?thesis by (simp only: length_map)
qed

lemma tick_fault:
  assumes "ready w" "i < length sensors" "insert_faults w (insert_calls w + i)"
    "\<forall>k < i. \<not> insert_faults w (insert_calls w + k)"
  shows "fst (store_traffic_data sk (fst (generate_sensor_data w))
            (snd (generate_sensor_data w))) = Inl OperationalError"
    and "traffic_data (data_collection_tick sk w) = traffic_data w"
    and "the_predictor (data_collection_tick sk w) = the_predictor w"
    and "insert_faults (data_collection_tick sk w) = insert_faults w"
    and "insert_calls (data_collection_tick sk w) = insert_calls w + Suc i"
proof -
  let ?w1 = "snd (generate_sensor_data w)"
  let ?data = "fst (generate_sensor_data w)"
  have r: "ready ?w1" using assms(1) by (simp add: generate_sensor_data_ready)
  have i: "i < length ?data" using assms(2) by (simp add: length_generate_sensor_data)
  have f: "insert_faults ?w1 (insert_calls ?w1 + i)"
    using assms(3) by (simp add: generate_sensor_data_db)
  have n: "\<forall>k < i. \<not> insert_faults ?w1 (insert_calls ?w1 + k)"
    using assms(4) by (simp add: generate_sensor_data_db)
  note s = store_traffic_data_fault [OF r i f n, of sk]
  show "fst (store_traffic_data sk ?data ?w1) = Inl OperationalError" by (rule s(1))
  then show "traffic_data (data_collection_tick sk w) = traffic_data w"
    using store_traffic_data_Inl [of sk ?data ?w1 OperationalError]
    by (simp add: tick_unfold sleep_def generate_sensor_data_keeps)
  show "the_predictor (data_collection_tick sk w) = the_predictor w"
    using s(2) by (simp add: tick_unfold sleep_def generate_sensor_data_db)
  show "insert_faults (data_collection_tick sk w) = insert_faults w"
    using s(3) by (simp add: tick_unfold sleep_def generate_sensor_data_db)
  show "insert_calls (data_collection_tick sk w) = insert_calls w + Suc i"
    using s(4) by (simp add: tick_unfold sleep_def generate_sensor_data_db)
qed

lemma tick_no_fault:
  assumes "ready w" "\<forall>k < length sensors. \<not> insert_faults w (insert_calls w + k)"
  shows "persisted_ids (data_collection_tick sk w)
           = persisted_ids w @ map (\<lambda>s. Some (fst s)) sensors"
proof -
  let ?w1 = "snd (generate_sensor_data w)"
  let ?data = "fst (generate_sensor_data w)"
  have r: "ready ?w1" using assms(1) by (simp add: generate_sensor_data_ready)
  have n: "\<forall>k < length ?data. \<not> insert_faults ?w1 (insert_calls ?w1 + k)"
    using assms(2) by (simp add: generate_sensor_data_db length_generate_sensor_data)
  have ids: "map (\<lambda>r. Some (sensor_id r)) ?data = map (\<lambda>s. Some (fst s)) sensors"
  proof -
    have "map (\<lambda>r. Some (sensor_id r)) ?data = map Some (map sensor_id ?data)"
      by (simp add: comp_def)
    also have "\<dots> = map Some (map fst sensors)"
      by (simp only: generate_sensor_data_ids)
    also have "\<dots> = map (\<lambda>s. Some (fst s)) sensors"
      by (simp add: comp_def)
    finally show ?thesis .
  qed
  have "persisted_ids (data_collection_tick sk w)
      = persisted_ids (snd (store_traffic_data sk ?data ?w1))"
    by (simp add: tick_unfold sleep_def persisted_ids_def)
  also have "\<dots> = persisted_ids ?w1 @ map (\<lambda>r. Some (sensor_id r)) ?data"
    by (rule store_traffic_data_no_fault(2) [OF r n])
  also have "persisted_ids ?w1 = persisted_ids w"
    by (simp add: persisted_ids_def generate_sensor_data_keeps)
  finally show ?thesis using ids by simp
qed

lemma example_world_fields:
  "ready example_world"
  "insert_faults example_world = (\<lambda>k. k = 1)"
  "insert_calls example_world = 0"
  "traffic_data example_world = Some []"
  "slept example_world = 0"
  by (simp_all add: ready_def example_world_def trained_predictor_def)

lemma example_tick:
  "fst (store_traffic_data example_sklearn (fst (generate_sensor_data example_world))
      (snd (generate_sensor_data example_world))) = Inl OperationalError"
  "traffic_data (data_collection_tick example_sklearn example_world) = Some []"
  "ready (data_collection_tick example_sklearn example_world)"
  "insert_faults (data_collection_tick example_sklearn example_world) = (\<lambda>k. k = 1)"
  "insert_calls (data_collection_tick example_sklearn example_world) = 2"
proof -
  have i: "1 < length sensors" by (simp add: sensors_def)
  have f: "insert_faults example_world (insert_calls example_world + 1)"
    by (simp add: example_world_fields)
  have n: "\<forall>k < 1. \<not> insert_faults example_world (insert_calls example_world + k)"
    by (simp add: example_world_fields)
  note t = tick_fault [OF example_world_fields(1) i f n, of example_sklearn]
  show "fst (store_traffic_data example_sklearn (fst (generate_sensor_data example_world))
      (snd (generate_sensor_data example_world))) = Inl OperationalError" by (rule t(1))
  show td: "traffic_data (data_collection_tick example_sklearn example_world) = Some []"
    using t(2) by (simp add: example_world_fields)
  show "ready (data_collection_tick example_sklearn example_world)"
    using ready_cong [OF t(3) t(2)] example_world_fields(1) by simp
  show "insert_faults (data_collection_tick example_sklearn example_world) = (\<lambda>k. k = 1)"
    using t(4) by (simp add: example_world_fields)
  show "insert_calls (data_collection_tick example_sklearn example_world) = 2"
    using t(5) by (simp add: example_world_fields)
qed

lemma example_second_tick:
  "persisted_ids (data_collection_job example_sklearn (Suc (Suc 0)) example_world) =
     [Some ''delhi_cp'', Some ''delhi_iffco'', Some ''delhi_lajpat'', Some ''delhi_dwarka'',
      Some ''blr_silk'', Some ''blr_electronic'', Some ''blr_jayanagar'', Some ''blr_hebbal'',
      Some ''mumbai_bandra'', Some ''mumbai_andheri'', Some ''chennai_adyar'',
      Some ''chennai_omr'']"
proof -
  let ?w1 = "data_collection_tick example_sklearn example_world"
  have n: "\<forall>k < length sensors. \<not> insert_faults ?w1 (insert_calls ?w1 + k)"
    by (simp add: example_tick)
  have "persisted_ids (data_collection_tick example_sklearn ?w1)
      = persisted_ids ?w1 @ map (\<lambda>s. Some (fst s)) sensors"
    by (rule tick_no_fault [OF example_tick(3) n])
  then show ?thesis
    by (simp add: persisted_ids_def example_tick(2) sensors_def)
qed

text \<open>Claim C1 as stated fails: all twelve locations are sampled, the first
  \<^verbatim>\<open>INSERT\<close> succeeds and the second raises, and the tick persists no record at all,
  not even the record of the first location.\<close>

theorem tick_isolation_counterexample:
  "map sensor_id (fst (generate_sensor_data example_world)) =
     [''delhi_cp'', ''delhi_iffco'', ''delhi_lajpat'', ''delhi_dwarka'', ''blr_silk'',
      ''blr_electronic'', ''blr_jayanagar'', ''blr_hebbal'', ''mumbai_bandra'',
      ''mumbai_andheri'', ''chennai_adyar'', ''chennai_omr'']
   \<and> insert_faults example_world 1 \<and> \<not> insert_faults example_world 0
   \<and> fst (store_traffic_data example_sklearn (fst (generate_sensor_data example_world))
        (snd (generate_sensor_data example_world))) = Inl OperationalError
   \<and> persisted_ids (data_collection_tick example_sklearn example_world) = []
   \<and> Some ''delhi_cp'' \<notin> set (persisted_ids (data_collection_tick example_sklearn example_world))"
  by (simp add: generate_sensor_data_ids example_tick persisted_ids_def example_world_fields)
    (simp add: sensors_def)

text \<open>The same process, whose database raises at the second \<^verbatim>\<open>INSERT\<close> and at
  no other: the first tick fails and leaves the table empty, the second tick runs and
  persists its twelve records.\<close>

theorem failed_tick_rolls_back_and_loop_continues_witness:
  "fst (store_traffic_data example_sklearn (fst (generate_sensor_data example_world))
      (snd (generate_sensor_data example_world))) = Inl OperationalError
   \<and> traffic_data (data_collection_tick example_sklearn example_world)
       = traffic_data example_world
   \<and> slept (data_collection_job example_sklearn (Suc (Suc 0)) example_world) = 60
   \<and> length (persisted_ids (data_collection_job example_sklearn (Suc (Suc 0)) example_world))
       = 12"
  using failed_tick_rolls_back_and_loop_continues
      [of example_sklearn example_world OperationalError "Suc (Suc 0)"]
    example_tick(1) example_second_tick
  by (simp add: example_world_fields)

lemmas store_eval = store_traffic_data_def now_def random_randint_def randint_def
  predict_def execute_insert_def commit_def next_id_def py_int_def Let_def
  example_world_def example_readings_def trained_predictor_def example_forest_def
  example_transform_def at_hour_def

lemma example_store_fails:
  "fst (store_traffic_data example_sklearn example_readings example_world)
     = Inl OperationalError"
  by (simp add: store_eval)

lemma example_store_succeeds:
  "fst (store_traffic_data example_sklearn example_readings
      (example_world\<lparr>insert_faults := (\<lambda>k. False)\<rparr>)) = Inr ()"
  by (simp add: store_eval)

lemma example_store_rows:
  "traffic_data (snd (store_traffic_data example_sklearn example_readings
      (example_world\<lparr>insert_faults := (\<lambda>k. False)\<rparr>))) =
   Some [\<lparr>col_id = 1, col_sensor_id = Some ''delhi_dwarka'',
           col_timestamp = Some ''2024-01-02T00:00:00'', col_vehicle_count = Some 0,
           col_avg_speed = Some 37.5, col_congestion_level = Some ''Low'',
           col_predicted_flow = Some 0\<rparr>,
         \<lparr>col_id = 2, col_sensor_id = Some ''delhi_lajpat'',
           col_timestamp = Some ''2024-01-02T00:00:00'', col_vehicle_count = Some 50,
           col_avg_speed = Some 11, col_congestion_level = Some ''Medium'',
           col_predicted_flow = Some 0\<rparr>]"
  by (simp add: store_eval)

text \<open>Two readings stored with a faulty second \<^verbatim>\<open>INSERT\<close>, and without fault.\<close>

theorem store_all_or_none_witness:
  "fst (store_traffic_data example_sklearn example_readings example_world)
     = Inl OperationalError
   \<and> traffic_data (snd (store_traffic_data example_sklearn example_readings example_world))
       = Some []
   \<and> fst (store_traffic_data example_sklearn example_readings
        (example_world\<lparr>insert_faults := (\<lambda>k. False)\<rparr>)) = Inr ()
   \<and> persisted_ids (snd (store_traffic_data example_sklearn example_readings
        (example_world\<lparr>insert_faults := (\<lambda>k. False)\<rparr>)))
       = [Some ''delhi_dwarka'', Some ''delhi_lajpat'']"
  using store_all_or_none [of example_sklearn example_readings example_world OperationalError]
    store_all_or_none [of example_sklearn example_readings
      "example_world\<lparr>insert_faults := (\<lambda>k. False)\<rparr>"]
    example_store_fails example_store_succeeds
  by (auto simp add: persisted_ids_def example_world_fields)
    (simp_all add: example_world_def example_readings_def)

text \<open>Two readings stored into an empty table, and a table that is yet to be created.\<close>

theorem stored_rows_have_prediction_witness:
  "traffic_data (example_world\<lparr>insert_faults := (\<lambda>k. False)\<rparr>) = Some []
   \<and> all_predicted (example_world\<lparr>insert_faults := (\<lambda>k. False)\<rparr>)
   \<and> map col_predicted_flow (the (traffic_data (snd (store_traffic_data example_sklearn
        example_readings (example_world\<lparr>insert_faults := (\<lambda>k. False)\<rparr>)))))
       = [Some 0, Some 0]
   \<and> all_predicted (snd (store_traffic_data example_sklearn example_readings
        (example_world\<lparr>insert_faults := (\<lambda>k. False)\<rparr>)))
   \<and> all_predicted (data_collection_job example_sklearn (Suc (Suc 0))
        (example_world\<lparr>insert_faults := (\<lambda>k. False)\<rparr>))
   \<and> all_predicted (init_db (example_world\<lparr>traffic_data := None\<rparr>))"
proof -
  let ?w = "example_world\<lparr>insert_faults := (\<lambda>k. False)\<rparr>"
  have a: "traffic_data ?w = Some []" by (simp add: example_world_def)
  have b: "all_predicted ?w" by (simp add: all_predicted_def example_world_def)
  have c: "traffic_data (example_world\<lparr>traffic_data := None\<rparr>) = None" by simp
  show ?thesis
    using a b c
      stored_rows_have_prediction [of ?w "[]" example_sklearn example_readings "Suc (Suc 0)"]
      stored_rows_have_prediction [of "example_world\<lparr>traffic_data := None\<rparr>"]
    by (simp add: example_store_rows)
qed

end
